theory Spec2Isabelle
  imports Main
begin

section \<open>Data model\<close>

text \<open>
  The two collections of \<^verbatim>\<open>server4.js\<close> (and of its earlier revision, the file whose
  token endpoints use \<^verbatim>\<open>jsonwebtoken\<close>), as Mongoose declares them:
  \<^verbatim>\<open>
  const appointmentSchema = new mongoose.Schema({
    name: { type: String, required: true },
    phone: { type: String, unique: true, required: true },
    service: { type: String, required: true },
    time: { type: String, required: true },
    date: { type: String, required: true },
    notes: String,
  });
  const reminderSchema = new mongoose.Schema({
    appointmentId: { type: mongoose.Schema.Types.ObjectId, ref: 'Appointment', required: true },
    alertTime: { type: Date, required: true },
    status: { type: String, default: 'pending' }
  });
  \<close>
  A request field is a string or is absent (\<open>undefined\<close>): \<open>string option\<close>. An update
  runs no validators, so a stored field other than \<open>phone\<close> can be empty (\<open>None\<close>: null
  or missing). An \<open>ObjectId\<close> is a natural number, a stored \<open>Date\<close> its time value in
  milliseconds since the epoch (a stored \<open>Date\<close> is never an Invalid Date).
\<close>

type_synonym objectId = nat

record appointment =
  a_id :: objectId
  a_name :: "string option"
  a_phone :: string
  a_service :: "string option"
  a_time :: "string option"
  a_date :: "string option"
  a_notes :: "string option"

record reminder =
  appointmentId :: objectId
  alertTime :: int
  status :: string

text \<open>
  The database: both collections in insertion order (\<open>findOne\<close>, \<open>findOneAndUpdate\<close>,
  \<open>findOneAndDelete\<close> and \<open>deleteOne\<close> act on the first match), and the next fresh
  \<open>ObjectId\<close>.
\<close>

record db =
  appointments :: "appointment list"
  reminders :: "reminder list"
  nextId :: objectId

definition emptyDb :: db where
  "emptyDb = \<lparr>appointments = [], reminders = [], nextId = 0\<rparr>"

text \<open>
  What the handlers take from outside this repository:
  \<^item> \<open>parseDate\<close>: the engine's \<open>Date.parse\<close>, \<open>None\<close> for \<open>NaN\<close> (an Invalid Date);
  \<^item> \<open>stripUndefined\<close>: whether Mongoose removes an \<open>undefined\<close> key from an update
    document (Mongoose 6 and later) or writes \<open>null\<close> for it (Mongoose 5);
  \<^item> \<open>checksCallback\<close>: whether \<open>Model.findOneAndUpdate\<close> throws on a fourth argument
    that is not a function (Mongoose 5 and 6) or ignores it (Mongoose 7 and later).
\<close>

record runtime =
  parseDate :: "string \<Rightarrow> int option"
  stripUndefined :: bool
  checksCallback :: bool

text \<open>The two revisions of the booking handlers under \<^verbatim>\<open>src/\<close>.\<close>

datatype revision =
  Server4    \<comment> \<open>\<^verbatim>\<open>server4.js\<close>: tokens in an in-memory map\<close>
| Part000    \<comment> \<open>\<^verbatim>\<open>unnamed/part_000\<close>: signed tokens, alert time sent as an ISO string\<close>

text \<open>
  Responses: \<open>res.json(...)\<close> is status 200, \<open>res.status(n).json({ error })\<close> a failure.
  The spec's taxonomy names the statuses: 400 ValidationError, 404 NotFound,
  401 InvalidToken, 500 InternalError.
\<close>

datatype response =
  Ok200 string "appointment option"    \<comment> \<open>\<open>{ message, appointment }\<close> or \<open>{ message }\<close>\<close>
| Failure nat string                   \<comment> \<open>status and \<open>{ error }\<close>\<close>

abbreviation ValidationError :: "string \<Rightarrow> response" where
  "ValidationError \<equiv> Failure 400"

abbreviation NotFound :: "string \<Rightarrow> response" where
  "NotFound \<equiv> Failure 404"

text \<open>
  An exception raised after the response was sent is caught and handed to \<open>next(error)\<close>;
  the caller has its response already.
\<close>

datatype js_error =
  RangeError          \<comment> \<open>\<open>toISOString()\<close> of an Invalid Date\<close>
| MongooseCastError   \<comment> \<open>Mongoose refuses an Invalid Date for a \<open>Date\<close> path\<close>
| CallbackError       \<comment> \<open>Mongoose: callback must be a function\<close>

record outcome =
  reply :: response
  passedToNext :: "js_error option"
  store :: db

section \<open>JavaScript values\<close>

text \<open>\<open>!x\<close> for a field that is a string or \<open>undefined\<close>.\<close>

definition falsy :: "string option \<Rightarrow> bool" where
  "falsy x = (case x of None \<Rightarrow> True | Some s \<Rightarrow> s = [])"

text \<open>A field inside a template literal: \<open>undefined\<close> prints as its name.\<close>

definition template :: "string option \<Rightarrow> string" where
  "template x = (case x of None \<Rightarrow> ''undefined'' | Some s \<Rightarrow> s)"

text \<open>\<open>TimeClip\<close>: a time value beyond 8.64e15 ms makes an Invalid Date.\<close>

definition timeClip :: "int \<Rightarrow> int option" where
  "timeClip t = (if \<bar>t\<bar> \<le> 8640000000000000 then Some t else None)"

text \<open>
  \<^verbatim>\<open>
  const appointmentDateTime = new Date(`${date}T${time}`);
  const alertTime = new Date(appointmentDateTime.getTime() - 60 * 60 * 1000);
  \<close>
  \<open>None\<close> is an Invalid Date (\<open>getTime()\<close> of an Invalid Date is \<open>NaN\<close>, and so is
  \<open>NaN - 3600000\<close>). Both constructors clip the time value they are given.
\<close>

definition alertTimeOf :: "runtime \<Rightarrow> string option \<Rightarrow> string option \<Rightarrow> int option" where
  "alertTimeOf rt date time =
     (case parseDate rt (template date @ ''T'' @ template time) of
        None \<Rightarrow> None
      | Some parsed \<Rightarrow>
          (case timeClip parsed of
             None \<Rightarrow> None
           | Some t \<Rightarrow> timeClip (t - 60 * 60 * 1000)))"

section \<open>The host's date parser\<close>

text \<open>
  \<open>Date.parse\<close> on the Date Time String Format of ECMA-262 with four-digit years:
  \<open>YYYY[-MM[-DD]]\<close>, then nothing (a date alone is UTC) or
  \<open>THH:mm[:ss[.sss]]\<close> followed by nothing (local time), \<open>Z\<close>, \<open>+HH:mm\<close> or \<open>-HH:mm\<close>. A day of
  the month up to 31 is taken as given and rolls over into the next month, as V8
  does. The host's zone is a fixed offset \<open>tz\<close> in minutes east of UTC. What an engine
  makes of any other string (signed six-digit years, a fraction of one or two digits,
  an offset without its colon, its own legacy formats) is not part of this parser,
  which answers \<open>NaN\<close>. The handlers take the parser as a parameter, and
  the general theorems hold for every parser; this one serves the concrete examples,
  whose strings are either in the format or without a digit.
\<close>

definition isDigit :: "char \<Rightarrow> bool" where
  "isDigit c = (let n = (of_char c :: nat) in 48 \<le> n \<and> n \<le> 57)"

definition number :: "nat \<Rightarrow> string \<Rightarrow> int option" where
  "number k s =
     (if length s = k \<and> list_all isDigit s
      then Some (foldl (\<lambda>n c. 10 * n + (of_char c - 48)) 0 s) else None)"

definition readDate :: "string \<Rightarrow> (int \<times> int \<times> int \<times> string) option" where
  "readDate s =
     (case number 4 (take 4 s) of
        None \<Rightarrow> None
      | Some y \<Rightarrow>
          (let r1 = drop 4 s in
           if take 1 r1 = ''-'' then
             (case number 2 (take 2 (drop 1 r1)) of
                None \<Rightarrow> None
              | Some m \<Rightarrow>
                  (let r2 = drop 3 r1 in
                   if take 1 r2 = ''-'' then
                     (case number 2 (take 2 (drop 1 r2)) of
                        None \<Rightarrow> None
                      | Some d \<Rightarrow> Some (y, m, d, drop 3 r2))
                   else Some (y, m, 1, r2)))
           else Some (y, 1, 1, r1)))"

definition readTime :: "string \<Rightarrow> (int \<times> int \<times> int \<times> int \<times> string) option" where
  "readTime r =
     (if take 1 r = ''T'' \<and> take 1 (drop 3 r) = '':'' then
        (case (number 2 (take 2 (drop 1 r)), number 2 (take 2 (drop 4 r))) of
           (Some h, Some mi) \<Rightarrow>
             (let r1 = drop 6 r in
              if take 1 r1 = '':'' then
                (case number 2 (take 2 (drop 1 r1)) of
                   None \<Rightarrow> None
                 | Some sec \<Rightarrow>
                     (let r2 = drop 3 r1 in
                      if take 1 r2 = ''.'' then
                        (case number 3 (take 3 (drop 1 r2)) of
                           None \<Rightarrow> None
                         | Some ms \<Rightarrow> Some (h, mi, sec, ms, drop 4 r2))
                      else Some (h, mi, sec, 0, r2)))
              else Some (h, mi, 0, 0, r1))
         | _ \<Rightarrow> None)
      else None)"

definition readZone :: "int \<Rightarrow> string \<Rightarrow> int option" where
  "readZone tz r =
     (if r = [] then Some tz
      else if r = ''Z'' then Some 0
      else if length r = 6 \<and> (take 1 r = ''+'' \<or> take 1 r = ''-'') \<and> take 1 (drop 3 r) = '':'' then
        (case (number 2 (take 2 (drop 1 r)), number 2 (take 2 (drop 4 r))) of
           (Some h, Some mi) \<Rightarrow>
             (if h \<le> 23 \<and> mi \<le> 59
              then Some ((if take 1 r = ''-'' then -1 else 1) * (h * 60 + mi)) else None)
         | _ \<Rightarrow> None)
      else None)"

definition inLeapYear :: "int \<Rightarrow> bool" where
  "inLeapYear y = (if y mod 400 = 0 then True else if y mod 100 = 0 then False else y mod 4 = 0)"

definition dayFromYear :: "int \<Rightarrow> int" where
  "dayFromYear y = 365 * (y - 1970) + (y - 1969) div 4 - (y - 1901) div 100 + (y - 1601) div 400"

definition monthStart :: "int \<Rightarrow> int \<Rightarrow> int" where
  "monthStart y m =
     [0, 31, 59, 90, 120, 151, 181, 212, 243, 273, 304, 334] ! nat (m - 1)
       + (if inLeapYear y \<and> 2 < m then 1 else 0)"

definition isoParse :: "int \<Rightarrow> string \<Rightarrow> int option" where
  "isoParse tz s =
     (case readDate s of
        None \<Rightarrow> None
      | Some (y, m, d, r) \<Rightarrow>
          (if 1 \<le> m \<and> m \<le> 12 \<and> 1 \<le> d \<and> d \<le> 31 then
             (let day = dayFromYear y + monthStart y m + (d - 1) in
              if r = [] then Some (day * 86400000)
              else
                (case readTime r of
                   None \<Rightarrow> None
                 | Some (h, mi, sec, ms, z) \<Rightarrow>
                     (if (h \<le> 23 \<and> mi \<le> 59 \<and> sec \<le> 59) \<or> (h = 24 \<and> mi = 0 \<and> sec = 0 \<and> ms = 0) then
                        (case readZone tz z of
                           None \<Rightarrow> None
                         | Some off \<Rightarrow>
                             Some (day * 86400000 + ((h * 60 + mi) * 60 + sec) * 1000 + ms - off * 60000))
                      else None)))
           else None))"

text \<open>A host: its zone, and the two Mongoose behaviours that changed between versions.\<close>

definition host :: "int \<Rightarrow> bool \<Rightarrow> bool \<Rightarrow> runtime" where
  "host tz strip chk = \<lparr>parseDate = isoParse tz, stripUndefined = strip, checksCallback = chk\<rparr>"

section \<open>Collections\<close>

fun updateFirst :: "('a \<Rightarrow> bool) \<Rightarrow> ('a \<Rightarrow> 'a) \<Rightarrow> 'a list \<Rightarrow> 'a list" where
  "updateFirst P f [] = []"
| "updateFirst P f (x # xs) = (if P x then f x # xs else x # updateFirst P f xs)"

fun deleteFirst :: "('a \<Rightarrow> bool) \<Rightarrow> 'a list \<Rightarrow> 'a list" where
  "deleteFirst P [] = []"
| "deleteFirst P (x # xs) = (if P x then xs else x # deleteFirst P xs)"

text \<open>\<open>Appointment.findOne({ phone })\<close>.\<close>

definition findByPhone :: "string \<Rightarrow> db \<Rightarrow> appointment option" where
  "findByPhone p s = find (\<lambda>a. a_phone a = p) (appointments s)"

text \<open>One key of an update document \<open>{ key: v }\<close> applied to a stored field.\<close>

definition setField :: "runtime \<Rightarrow> string option \<Rightarrow> string option \<Rightarrow> string option" where
  "setField rt v old = (case v of Some x \<Rightarrow> Some x | None \<Rightarrow> if stripUndefined rt then old else None)"

text \<open>
  \<^verbatim>\<open>
  Appointment.findOneAndUpdate(
    { phone },
    { name, phone, service, time, date, notes },
    { upsert: true, new: true })
  \<close>
  The first appointment of the phone is updated in place and keeps its \<open>_id\<close>; without
  one, a new document is inserted under a fresh \<open>_id\<close>. The result is the document
  after the write.
\<close>

definition upsertAppointment ::
  "runtime \<Rightarrow> db \<Rightarrow> string option \<Rightarrow> string \<Rightarrow> string option \<Rightarrow> string option \<Rightarrow> string option
    \<Rightarrow> string option \<Rightarrow> appointment \<times> db" where
  "upsertAppointment rt s name p service time date notes =
     (case findByPhone p s of
        Some a \<Rightarrow>
          (let a' = a\<lparr>a_name := setField rt name (a_name a), a_phone := p,
                      a_service := setField rt service (a_service a),
                      a_time := setField rt time (a_time a),
                      a_date := setField rt date (a_date a),
                      a_notes := setField rt notes (a_notes a)\<rparr>
           in (a', s\<lparr>appointments := updateFirst (\<lambda>x. a_phone x = p) (\<lambda>_. a') (appointments s)\<rparr>))
      | None \<Rightarrow>
          (let a' = \<lparr>a_id = nextId s, a_name = name, a_phone = p, a_service = service,
                     a_time = time, a_date = date, a_notes = notes\<rparr>
           in (a', s\<lparr>appointments := appointments s @ [a'], nextId := Suc (nextId s)\<rparr>)))"

text \<open>
  \<^verbatim>\<open>
  Appointment.findOneAndUpdate({ phone }, { name, service, time, date, notes }, { new: true })
  \<close>
  No upsert: \<open>null\<close> when the phone has no appointment.
\<close>

definition updateAppointment ::
  "runtime \<Rightarrow> db \<Rightarrow> string \<Rightarrow> string option \<Rightarrow> string option \<Rightarrow> string option \<Rightarrow> string option
    \<Rightarrow> string option \<Rightarrow> (appointment \<times> db) option" where
  "updateAppointment rt s p name service time date notes =
     (case findByPhone p s of
        None \<Rightarrow> None
      | Some a \<Rightarrow>
          (let a' = a\<lparr>a_name := setField rt name (a_name a),
                      a_service := setField rt service (a_service a),
                      a_time := setField rt time (a_time a),
                      a_date := setField rt date (a_date a),
                      a_notes := setField rt notes (a_notes a)\<rparr>
           in Some (a', s\<lparr>appointments := updateFirst (\<lambda>x. a_phone x = p) (\<lambda>_. a') (appointments s)\<rparr>)))"

text \<open>\<open>Reminder.create({ appointmentId, alertTime })\<close>: a new document, status by default.\<close>

definition createReminder :: "objectId \<Rightarrow> int \<Rightarrow> db \<Rightarrow> db" where
  "createReminder i t s =
     s\<lparr>reminders := reminders s @ [\<lparr>appointmentId = i, alertTime = t, status = ''pending''\<rparr>]\<rparr>"

section \<open>The booking handlers\<close>

text \<open>
  \<^verbatim>\<open>
  app.post("/submit-booking", async (req, res, next) => {
    const { name, phone, service, time, date, notes } = req.body;
    if (!name || !phone || !service || !time || !date) {
      return res.status(400).json({ error: "All fields are required!" });
    }
    try {
      const appointment = await Appointment.findOneAndUpdate(...upsert...);
      res.json({ message: "Appointment saved successfully!", appointment });
      const appointmentDateTime = new Date(`${date}T${time}`);
      const alertTime = new Date(appointmentDateTime.getTime() - 60 * 60 * 1000);
      await Reminder.create({ appointmentId: appointment._id, alertTime: alertTime });
    } catch (error) { next(error); }
  });
  \<close>
  The earlier revision sends \<open>alertTime.toISOString()\<close>, which throws a \<open>RangeError\<close> on an
  Invalid Date before \<open>Reminder.create\<close> is reached; in \<^verbatim>\<open>server4.js\<close> the Invalid Date
  reaches Mongoose, whose cast of a \<open>Date\<close> path refuses it, and the document is not
  saved. Past the check \<open>phone\<close> is a non-empty string (an absent one is falsy and was
  answered by the check).
\<close>

definition invalidDateError :: "revision \<Rightarrow> js_error" where
  "invalidDateError v = (case v of Server4 \<Rightarrow> MongooseCastError | Part000 \<Rightarrow> RangeError)"

definition submit_booking ::
  "revision \<Rightarrow> runtime \<Rightarrow> db \<Rightarrow> string option \<Rightarrow> string option \<Rightarrow> string option \<Rightarrow> string option
    \<Rightarrow> string option \<Rightarrow> string option \<Rightarrow> outcome" where
  "submit_booking v rt s name phone service time date notes =
     (if falsy name \<or> falsy phone \<or> falsy service \<or> falsy time \<or> falsy date
      then \<lparr>reply = ValidationError ''All fields are required!'', passedToNext = None, store = s\<rparr>
      else
        (case phone of
           None \<Rightarrow> \<lparr>reply = ValidationError ''All fields are required!'', passedToNext = None, store = s\<rparr>
         | Some p \<Rightarrow>
             (case upsertAppointment rt s name p service time date notes of
                (appointment, s1) \<Rightarrow>
                  (case alertTimeOf rt date time of
                     None \<Rightarrow>
                       \<lparr>reply = Ok200 ''Appointment saved successfully!'' (Some appointment),
                        passedToNext = Some (invalidDateError v), store = s1\<rparr>
                   | Some t \<Rightarrow>
                       \<lparr>reply = Ok200 ''Appointment saved successfully!'' (Some appointment),
                        passedToNext = None, store = createReminder (a_id appointment) t s1\<rparr>))))"

text \<open>
  \<^verbatim>\<open>
  app.post("/modify-appointment", async (req, res, next) => {
    const { phone, name, service, time, date, notes } = req.body;
    try {
      const appointment = await Appointment.findOneAndUpdate(
        { phone }, { name, service, time, date, notes }, { new: true });
      if (!appointment) {
        return res.status(404).json({ error: "Appointment not found!" });
      }
      res.json({ message: "Appointment updated successfully!", appointment });
      const appointmentDateTime = new Date(`${date}T${time}`);
      const alertTime = new Date(appointmentDateTime.getTime() - 60 * 60 * 1000);
      await Reminder.findOneAndUpdate(
        { appointmentId: appointment._id },
        { alertTime: alertTime, status: 'pending' },
        { new: true });
    } catch (error) { next(error); }
  });
  \<close>
  There is no check of the fields. The earlier revision calls
  \<^verbatim>\<open>
      Reminder.findOneAndUpdate(
        { appointmentId: appointment._id },
        { alertTime: alertTimeISO },
        { status: 'pending' },
        { new: true });
  \<close>
  where \<open>{ status: 'pending' }\<close> stands in the place of the options and \<open>{ new: true }\<close> in
  the place of the callback: the status is no part of the update, and a Mongoose that
  checks its callback throws before any write.

  The phone of a modify or cancel request is a string here: what the filter
  \<open>{ phone: undefined }\<close> of a request without one matches is decided inside Mongoose.
\<close>

definition modify_appointment ::
  "revision \<Rightarrow> runtime \<Rightarrow> db \<Rightarrow> string \<Rightarrow> string option \<Rightarrow> string option \<Rightarrow> string option
    \<Rightarrow> string option \<Rightarrow> string option \<Rightarrow> outcome" where
  "modify_appointment v rt s phone name service time date notes =
     (case updateAppointment rt s phone name service time date notes of
        None \<Rightarrow> \<lparr>reply = NotFound ''Appointment not found!'', passedToNext = None, store = s\<rparr>
      | Some (appointment, s1) \<Rightarrow>
          (case alertTimeOf rt date time of
             None \<Rightarrow>
               \<lparr>reply = Ok200 ''Appointment updated successfully!'' (Some appointment),
                passedToNext = Some (invalidDateError v), store = s1\<rparr>
           | Some t \<Rightarrow>
               (case v of
                  Server4 \<Rightarrow>
                    \<lparr>reply = Ok200 ''Appointment updated successfully!'' (Some appointment),
                     passedToNext = None,
                     store = s1\<lparr>reminders :=
                       updateFirst (\<lambda>r. appointmentId r = a_id appointment)
                         (\<lambda>r. r\<lparr>alertTime := t, status := ''pending''\<rparr>) (reminders s1)\<rparr>\<rparr>
                | Part000 \<Rightarrow>
                    (if checksCallback rt
                     then \<lparr>reply = Ok200 ''Appointment updated successfully!'' (Some appointment),
                           passedToNext = Some CallbackError, store = s1\<rparr>
                     else \<lparr>reply = Ok200 ''Appointment updated successfully!'' (Some appointment),
                           passedToNext = None,
                           store = s1\<lparr>reminders :=
                             updateFirst (\<lambda>r. appointmentId r = a_id appointment)
                               (\<lambda>r. r\<lparr>alertTime := t\<rparr>) (reminders s1)\<rparr>\<rparr>))))"

text \<open>
  \<^verbatim>\<open>
  app.post("/cancel-appointment", async (req, res, next) => {
    const { phone } = req.body;
    try {
      const result = await Appointment.findOneAndDelete({ phone });
      if (!result) {
        return res.status(404).json({ error: "Appointment not found!" });
      }
      await Reminder.deleteOne({ appointmentId: result._id });
      res.json({ message: "Appointment canceled successfully!" });
    } catch (error) { next(error); }
  });
  \<close>
  The same in both revisions.
\<close>

definition cancel_appointment :: "db \<Rightarrow> string \<Rightarrow> outcome" where
  "cancel_appointment s phone =
     (case findByPhone phone s of
        None \<Rightarrow> \<lparr>reply = NotFound ''Appointment not found!'', passedToNext = None, store = s\<rparr>
      | Some result \<Rightarrow>
          \<lparr>reply = Ok200 ''Appointment canceled successfully!'' None, passedToNext = None,
           store = s\<lparr>appointments := deleteFirst (\<lambda>a. a_phone a = phone) (appointments s),
                     reminders := deleteFirst (\<lambda>r. appointmentId r = a_id result) (reminders s)\<rparr>\<rparr>)"

text \<open>A sequence of requests, each handled on the database the one before left.\<close>

datatype request =
  Submit "string option" "string option" "string option" "string option" "string option" "string option"
| Modify string "string option" "string option" "string option" "string option" "string option"
| Cancel string

fun handle :: "revision \<Rightarrow> runtime \<Rightarrow> db \<Rightarrow> request \<Rightarrow> outcome" where
  "handle v rt s (Submit name phone service time date notes) =
     submit_booking v rt s name phone service time date notes"
| "handle v rt s (Modify phone name service time date notes) =
     modify_appointment v rt s phone name service time date notes"
| "handle v rt s (Cancel phone) = cancel_appointment s phone"

fun run :: "revision \<Rightarrow> runtime \<Rightarrow> db \<Rightarrow> request list \<Rightarrow> db" where
  "run v rt s [] = s"
| "run v rt s (q # qs) = run v rt (store (handle v rt s q)) qs"

text \<open>The schema's unique index: no two appointments share a phone.\<close>

definition uniquePhones :: "db \<Rightarrow> bool" where
  "uniquePhones s = distinct (map a_phone (appointments s))"

section \<open>Verification tokens\<close>

text \<open>
  \<^verbatim>\<open>
  function generateSimpleToken() {
    const chars = "ABCDEFGHIJKLMNOPQRSTUVWXYZabcdefghijklmnopqrstuvwxyz0123456789";
    let token = "";
    for (let i = 0; i < 8; i++) {
        token += chars.charAt(Math.floor(Math.random() * chars.length));
    }
    return token;
  }
  \<close>
  \<open>draw i\<close> is the value of \<open>Math.floor(Math.random() * chars.length)\<close> in round \<open>i\<close>;
  \<open>charAt\<close> past the end is the empty string.
\<close>

definition chars :: string where
  "chars = ''ABCDEFGHIJKLMNOPQRSTUVWXYZabcdefghijklmnopqrstuvwxyz0123456789''"

definition charAt :: "string \<Rightarrow> nat \<Rightarrow> string" where
  "charAt s i = (if i < length s then [s ! i] else [])"

function tokenLoop :: "(nat \<Rightarrow> nat) \<Rightarrow> nat \<Rightarrow> string \<Rightarrow> string" where
  "tokenLoop draw i token =
     (if i < 8 then tokenLoop draw (Suc i) (token @ charAt chars (draw i)) else token)"
  by pat_completeness auto
termination
  by (relation "measure (\<lambda>(draw, i, token). 8 - i)") auto

definition generateSimpleToken :: "(nat \<Rightarrow> nat) \<Rightarrow> string" where
  "generateSimpleToken draw = tokenLoop draw 0 []"

text \<open>
  \<open>const tokenStore = {};\<close> The store's own properties are a map from token to
  \<open>{ phone, name }\<close>. It is a plain object, so reading a name it does not own falls
  through to \<open>Object.prototype\<close>, whose properties (functions, and the prototype itself
  under \<open>__proto__\<close>) are all truthy.
\<close>

record identity =
  id_phone :: string
  id_name :: string

type_synonym tokenStore = "string \<rightharpoonup> identity"

definition objectPrototypeNames :: "string list" where
  "objectPrototypeNames =
     [''constructor'', ''__defineGetter__'', ''__defineSetter__'', ''hasOwnProperty'',
      ''__lookupGetter__'', ''__lookupSetter__'', ''isPrototypeOf'', ''propertyIsEnumerable'',
      ''toString'', ''valueOf'', ''__proto__'', ''toLocaleString'']"

datatype token_response =
  TokenJson string               \<comment> \<open>200 \<open>{ token }\<close>\<close>
| IdentityJson identity          \<comment> \<open>200 \<open>{ phone, name }\<close>\<close>
| PhoneJson "string option"      \<comment> \<open>200 \<open>{ phone: decoded.phone }\<close>\<close>
| InheritedJson                  \<comment> \<open>200, the body made of a property of \<open>Object.prototype\<close>\<close>
| TokenFailure nat string        \<comment> \<open>status and \<open>{ error }\<close>\<close>

abbreviation InvalidToken :: "string \<Rightarrow> token_response" where
  "InvalidToken \<equiv> TokenFailure 401"

text \<open>
  \<^verbatim>\<open>
  app.get("/generate-token", (req, res) => {
    const { phone, name } = req.query;
    if (!phone || !name) {
      return res.status(400).json({ error: "Phone and Name are required" });
    }
    try {
      const token = generateSimpleToken();
      tokenStore[token] = { phone, name };
      res.json({ token });
    } catch (error) { ... 500 ... }
  });
  \<close>
\<close>

definition generate_token ::
  "(nat \<Rightarrow> nat) \<Rightarrow> tokenStore \<Rightarrow> string option \<Rightarrow> string option \<Rightarrow> token_response \<times> tokenStore" where
  "generate_token draw ts phone name =
     (if falsy phone \<or> falsy name then (TokenFailure 400 ''Phone and Name are required'', ts)
      else
        (case (phone, name) of
           (Some p, Some n) \<Rightarrow>
             (let token = generateSimpleToken draw
              in (TokenJson token, ts(token \<mapsto> \<lparr>id_phone = p, id_name = n\<rparr>)))
         | _ \<Rightarrow> (TokenFailure 400 ''Phone and Name are required'', ts)))"

text \<open>
  \<^verbatim>\<open>
  app.get("/validate-token", (req, res) => {
    const { token } = req.query;
    if (!token) return res.status(400).json({ error: "Token is required" });
    try {
      const data = tokenStore[token];
      if (!data) throw new Error("Token not found");
      res.json(data);
    } catch (error) {
      res.status(401).json({ error: "Invalid or expired token" });
    }
  });
  \<close>
  The store is read and never written.
\<close>

definition validate_token :: "tokenStore \<Rightarrow> string option \<Rightarrow> token_response \<times> tokenStore" where
  "validate_token ts token =
     (case token of
        None \<Rightarrow> (TokenFailure 400 ''Token is required'', ts)
      | Some t \<Rightarrow>
          (if t = [] then (TokenFailure 400 ''Token is required'', ts)
           else
             (case ts t of
                Some data \<Rightarrow> (IdentityJson data, ts)
              | None \<Rightarrow>
                  (if t \<in> set objectPrototypeNames then (InheritedJson, ts)
                   else (InvalidToken ''Invalid or expired token'', ts)))))"

text \<open>
  The earlier revision keeps no store: the token is a JSON Web Token.
  \<^verbatim>\<open>
      const token = jwt.sign({ phone }, SECRET_KEY, { expiresIn: "15m" });
      res.json({ token });
      ...
      const decoded = jwt.verify(token, SECRET_KEY);
      res.json({ phone: decoded.phone });
  \<close>
  \<open>sign\<close> and \<open>verify\<close> are the library's functions at the moment of the call, the key
  fixed: \<open>sign p\<close> is the token for the payload \<open>{ phone: p }\<close> (\<open>None\<close> when it throws),
  \<open>verify t\<close> is \<open>None\<close> when \<open>jwt.verify\<close> throws (malformed, wrong signature,
  expired) and otherwise the \<open>phone\<close> of the decoded payload.
\<close>

definition generate_token_signed :: "(string \<Rightarrow> string option) \<Rightarrow> string option \<Rightarrow> token_response" where
  "generate_token_signed sign phone =
     (case phone of
        None \<Rightarrow> TokenFailure 400 ''Phone number is required''
      | Some p \<Rightarrow>
          (if p = [] then TokenFailure 400 ''Phone number is required''
           else
             (case sign p of
                Some token \<Rightarrow> TokenJson token
              | None \<Rightarrow> TokenFailure 500 ''Internal Server Error'')))"

definition validate_token_signed ::
  "(string \<Rightarrow> string option option) \<Rightarrow> string option \<Rightarrow> token_response" where
  "validate_token_signed verify token =
     (case token of
        None \<Rightarrow> TokenFailure 400 ''Token is required''
      | Some t \<Rightarrow>
          (if t = [] then TokenFailure 400 ''Token is required''
           else
             (case verify t of
                Some decoded_phone \<Rightarrow> PhoneJson decoded_phone
              | None \<Rightarrow> InvalidToken ''Invalid or expired token'')))"

text \<open>
  A stand-in for \<open>jsonwebtoken\<close> in which everything is in clear: the token for
  \<open>{ phone }\<close>, signed with \<open>key\<close> at second \<open>now\<close> with \<open>expiresIn: "15m"\<close>, is the expiry
  \<open>now + 900\<close> in decimal, the key in the place of the signature, and the phone,
  separated by dots. Verifying under \<open>key\<close> at second \<open>now\<close> throws when the token has
  no such shape or names another key, and when \<open>now\<close> has reached the expiry;
  otherwise it gives the payload, whose phone is what follows the key. The handlers
  take the library's two functions as parameters; this one shows a library of that
  kind at work in them.
\<close>

definition digitChar :: "nat \<Rightarrow> char" where
  "digitChar d = ''0123456789'' ! d"

function decimal :: "nat \<Rightarrow> string" where
  "decimal n = (if n < 10 then [digitChar n] else decimal (n div 10) @ [digitChar (n mod 10)])"
  by pat_completeness auto
termination
  by (relation "measure id") auto

declare decimal.simps [simp del]

definition decimalValue :: "string \<Rightarrow> nat" where
  "decimalValue s = foldl (\<lambda>n c. 10 * n + (of_char c - 48)) 0 s"

definition idealSign :: "string \<Rightarrow> nat \<Rightarrow> string \<Rightarrow> string option" where
  "idealSign key now phone = Some (decimal (now + 900) @ ''.'' @ key @ ''.'' @ phone)"

definition idealVerify :: "string \<Rightarrow> nat \<Rightarrow> string \<Rightarrow> string option option" where
  "idealVerify key now token =
     (let expiry = takeWhile isDigit token; signed = dropWhile isDigit token
      in if expiry = [] then None
         else if take (length key + 2) signed = ''.'' @ key @ ''.''
         then (if decimalValue expiry \<le> now then None
               else Some (Some (drop (length key + 2) signed)))
         else None)"

section \<open>A concrete host and the spec's scenario\<close>

text \<open>A host in UTC with a Mongoose of version 7 or later.\<close>

definition node :: runtime where
  "node = host 0 True False"

text \<open>
  The database after the scenario's first request on an empty database,
  \<open>{name:"A", phone:"555", service:"cut", time:"14:00", date:"2024-01-10"}\<close>:
  one appointment and its reminder for 13:00 UTC of that day.
\<close>

definition booked :: db where
  "booked =
     \<lparr>appointments =
        [\<lparr>a_id = 0, a_name = Some ''A'', a_phone = ''555'', a_service = Some ''cut'',
          a_time = Some ''14:00'', a_date = Some ''2024-01-10'', a_notes = None\<rparr>],
      reminders = [\<lparr>appointmentId = 0, alertTime = 1704891600000, status = ''pending''\<rparr>],
      nextId = 1\<rparr>"

section \<open>Evaluation\<close>

lemmas iso_eval = isoParse_def readDate_def readTime_def readZone_def number_def isDigit_def
  inLeapYear_def dayFromYear_def monthStart_def Let_def

lemmas handler_eval = submit_booking_def modify_appointment_def cancel_appointment_def
  upsertAppointment_def updateAppointment_def createReminder_def findByPhone_def setField_def
  alertTimeOf_def timeClip_def template_def falsy_def host_def emptyDb_def invalidDateError_def
  uniquePhones_def

lemmas scenario_eval = node_def booked_def handler_eval iso_eval

lemma booked_reached:
  "run v node emptyDb
     [Submit (Some ''A'') (Some ''555'') (Some ''cut'') (Some ''14:00'') (Some ''2024-01-10'') None] = booked"
  by (simp add: scenario_eval)

lemma isoParse_scenario:
  "isoParse tz ''2024-01-10T14:00'' = Some (1704895200000 - tz * 60000)"
  "isoParse tz ''2024-01-10T13:00'' = Some (1704891600000 - tz * 60000)"
  by (simp_all add: iso_eval)

section \<open>First match in a collection\<close>

lemma find_updateFirst_const:
  "P y \<Longrightarrow> find P (updateFirst P (\<lambda>_. y) xs) = (case find P xs of None \<Rightarrow> None | Some _ \<Rightarrow> Some y)"
  by (induction xs) auto

lemma find_updateFirst:
  "(\<And>x. P x \<Longrightarrow> P (f x)) \<Longrightarrow> find P (updateFirst P f xs) = map_option f (find P xs)"
  by (induction xs) auto

lemma find_append_new:
  "find P xs = None \<Longrightarrow> P y \<Longrightarrow> find P (xs @ [y]) = Some y"
  by (induction xs) (auto split: if_splits)

lemma updateFirst_none: "find P xs = None \<Longrightarrow> updateFirst P f xs = xs"
  by (induction xs) (auto split: if_splits)

lemma deleteFirst_none: "find P xs = None \<Longrightarrow> deleteFirst P xs = xs"
  by (induction xs) (auto split: if_splits)

lemma set_deleteFirst: "set (deleteFirst P xs) \<subseteq> set xs"
  by (induction xs) auto

lemma deleteFirst_distinct_key:
  "distinct (map k xs) \<Longrightarrow> deleteFirst (\<lambda>x. k x = p) xs = filter (\<lambda>x. k x \<noteq> p) xs"
proof (induction xs)
  case Nil
  show ?case by simp
next
  case (Cons x xs)
  show ?case
  proof (cases "k x = p")
    case True
    with Cons.prems have "p \<notin> k ` set xs" by auto
    then have "filter (\<lambda>x. k x \<noteq> p) xs = xs" by (auto intro: filter_True)
    with True show ?thesis by simp
  next
    case False
    with Cons show ?thesis by simp
  qed
qed

lemma find_filter_neq: "find (\<lambda>x. k x = p) (filter (\<lambda>x. k x \<noteq> p) xs) = None"
  by (induction xs) auto

lemma length_filter_deleteFirst:
  "length (filter P (deleteFirst P xs)) = length (filter P xs) - 1"
  by (induction xs) auto

lemma filter_deleteFirst_single:
  "length (filter P xs) = 1 \<Longrightarrow> filter P (deleteFirst P xs) = []"
  by (induction xs) (auto split: if_splits)

lemma filter_other_deleteFirst:
  "filter (\<lambda>x. \<not> P x) (deleteFirst P xs) = filter (\<lambda>x. \<not> P x) xs"
  by (induction xs) auto

lemma distinct_map_deleteFirst:
  "distinct (map k xs) \<Longrightarrow> distinct (map k (deleteFirst P xs))"
proof (induction xs)
  case Nil
  show ?case by simp
next
  case (Cons x xs)
  have "k ` set (deleteFirst P xs) \<subseteq> k ` set xs"
    using set_deleteFirst[of P xs] by blast
  with Cons show ?case by auto
qed

lemma map_phone_updateFirst:
  "a_phone y = p \<Longrightarrow> map a_phone (updateFirst (\<lambda>x. a_phone x = p) (\<lambda>_. y) xs) = map a_phone xs"
  by (induction xs) auto

section \<open>The appointment writes\<close>

lemma findByPhone_phone: "findByPhone p s = Some a \<Longrightarrow> a_phone a = p"
  by (auto simp: findByPhone_def find_Some_iff)

text \<open>
  After the upsert the phone's appointment is the returned document; it kept its
  \<open>_id\<close> if the phone had one before; the reminders are as they were.
\<close>

lemma upsert_result:
  "upsertAppointment rt s name p service time date notes = (a, s1) \<Longrightarrow>
     findByPhone p s1 = Some a \<and> reminders s1 = reminders s
     \<and> (case findByPhone p s of Some old \<Rightarrow> a_id a = a_id old | None \<Rightarrow> a_id a = nextId s)"
  by (auto simp: upsertAppointment_def findByPhone_def Let_def find_updateFirst_const
      find_append_new split: option.splits)

lemma update_result:
  assumes "updateAppointment rt s p name service time date notes = Some (a', s1)"
  shows "findByPhone p s1 = Some a' \<and> reminders s1 = reminders s \<and> nextId s1 = nextId s
     \<and> (\<exists>a. findByPhone p s = Some a \<and> a_id a' = a_id a \<and> a_phone a' = a_phone a)"
proof -
  from assms obtain a where a: "findByPhone p s = Some a"
    by (auto simp: updateAppointment_def split: option.splits)
  then have ph: "a_phone a = p"
    by (rule findByPhone_phone)
  from assms a ph show ?thesis
    by (auto simp: updateAppointment_def findByPhone_def Let_def find_updateFirst_const)
qed

section \<open>The unique index is kept\<close>

lemma uniquePhones_upsert:
  assumes "uniquePhones s"
  shows "uniquePhones (snd (upsertAppointment rt s name p service time date notes))"
proof (cases "findByPhone p s")
  case None
  then have "p \<notin> set (map a_phone (appointments s))"
    by (auto simp: findByPhone_def find_None_iff)
  with assms None show ?thesis
    by (simp add: upsertAppointment_def uniquePhones_def Let_def)
next
  case (Some a)
  with assms show ?thesis
    by (simp add: upsertAppointment_def uniquePhones_def Let_def map_phone_updateFirst)
qed

lemma uniquePhones_update:
  assumes "uniquePhones s"
      and "updateAppointment rt s p name service time date notes = Some (a', s1)"
  shows "uniquePhones s1"
proof -
  from assms(2) obtain a where a: "findByPhone p s = Some a"
    by (auto simp: updateAppointment_def split: option.splits)
  then have "a_phone a = p" by (rule findByPhone_phone)
  with assms a show ?thesis
    by (auto simp: updateAppointment_def uniquePhones_def Let_def map_phone_updateFirst)
qed

lemma uniquePhones_handle:
  assumes "uniquePhones s"
  shows "uniquePhones (store (handle v rt s q))"
proof (cases q)
  case (Submit name phone service time date nts)
  show ?thesis
  proof (cases phone)
    case None
    with Submit assms show ?thesis by (simp add: submit_booking_def falsy_def)
  next
    case (Some p)
    obtain a s1 where u: "upsertAppointment rt s name p service time date nts = (a, s1)"
      by (cases "upsertAppointment rt s name p service time date nts")
    with uniquePhones_upsert[OF assms, of rt name p service time date nts]
    have "uniquePhones s1" by simp
    with Submit Some u assms show ?thesis
      by (simp add: submit_booking_def createReminder_def uniquePhones_def split: option.split)
  qed
next
  case (Modify phone name service time date nts)
  show ?thesis
  proof (cases "updateAppointment rt s phone name service time date nts")
    case None
    with Modify assms show ?thesis by (simp add: modify_appointment_def)
  next
    case (Some r)
    obtain a' s1 where r: "r = (a', s1)" by (cases r)
    with Some uniquePhones_update[OF assms] have "uniquePhones s1" by simp
    with Modify Some r show ?thesis
      by (simp add: modify_appointment_def uniquePhones_def split: option.split revision.split)
  qed
next
  case (Cancel phone)
  with assms show ?thesis
    by (simp add: cancel_appointment_def uniquePhones_def distinct_map_deleteFirst
        split: option.split)
qed

lemma uniquePhones_run: "uniquePhones s \<Longrightarrow> uniquePhones (run v rt s qs)"
  by (induction qs arbitrary: s) (simp_all add: uniquePhones_handle)

lemma uniquePhones_reachable: "uniquePhones (run v rt emptyDb qs)"
  by (rule uniquePhones_run) (simp add: uniquePhones_def emptyDb_def)

section \<open>The token loop\<close>

lemma tokenLoop_concat:
  "tokenLoop draw i token = token @ concat (map (\<lambda>j. charAt chars (draw j)) [i..<8])"
proof (induction draw i token rule: tokenLoop.induct)
  case (1 draw i token)
  show ?case
  proof (cases "i < 8")
    case True
    then have "[i..<8] = i # [Suc i..<8]" by (simp add: upt_conv_Cons)
    with True "1" show ?thesis by (subst tokenLoop.simps) simp
  next
    case False
    then show ?thesis by (subst tokenLoop.simps) simp
  qed
qed

lemma generateSimpleToken_nonempty:
  assumes "draw 0 < length chars"
  shows "generateSimpleToken draw \<noteq> []"
proof -
  have "[0..<8] = 0 # [Suc 0..<8]" by (simp add: upt_conv_Cons)
  then show ?thesis
    using assms by (simp add: generateSimpleToken_def tokenLoop_concat charAt_def)
qed

lemma generateSimpleToken_length:
  assumes "\<forall>i<8. draw i < length chars"
  shows "length (generateSimpleToken draw) = 8"
proof -
  have "\<forall>j\<in>set [0..<8]. length (charAt chars (draw j)) = 1"
    using assms by (simp add: charAt_def)
  then have "map (\<lambda>j. length (charAt chars (draw j))) [0..<8] = map (\<lambda>j. 1) [0..<8]"
    by (intro map_cong) auto
  then show ?thesis
    by (simp add: generateSimpleToken_def tokenLoop_concat length_concat comp_def sum_list_triv del: upt_Suc)
qed

section \<open>The stand-in library\<close>

lemma digit_cases:
  "d < 10 \<Longrightarrow> d = 0 \<or> d = 1 \<or> d = 2 \<or> d = 3 \<or> d = 4 \<or> d = 5 \<or> d = 6 \<or> d = 7 \<or> d = 8 \<or> d = (9::nat)"
  by arith

lemma isDigit_digitChar: "d < 10 \<Longrightarrow> isDigit (digitChar d)"
  by (drule digit_cases) (auto simp: isDigit_def digitChar_def)

lemma of_char_digitChar: "d < 10 \<Longrightarrow> of_char (digitChar d) = 48 + d"
  by (drule digit_cases) (auto simp: digitChar_def)

lemma decimal_digits: "list_all isDigit (decimal n)"
proof (induction n rule: decimal.induct)
  case (1 n)
  show ?case
  proof (cases "n < 10")
    case True
    then show ?thesis by (subst decimal.simps) (simp add: isDigit_digitChar)
  next
    case False
    with "1" show ?thesis by (subst decimal.simps) (simp add: isDigit_digitChar)
  qed
qed

lemma decimal_nonempty: "decimal n \<noteq> []"
  by (subst decimal.simps) simp

lemma decimalValue_decimal: "decimalValue (decimal n) = n"
proof (induction n rule: decimal.induct)
  case (1 n)
  show ?case
  proof (cases "n < 10")
    case True
    then show ?thesis
      by (subst decimal.simps) (simp add: decimalValue_def of_char_digitChar)
  next
    case False
    with "1" have "decimalValue (decimal (n div 10)) = n div 10" by simp
    with False show ?thesis
      by (subst decimal.simps) (simp add: decimalValue_def of_char_digitChar)
  qed
qed

lemma not_isDigit_dot: "\<not> isDigit CHR ''.''"
  by (simp add: isDigit_def)

lemma takeWhile_decimal: "takeWhile isDigit (decimal n @ CHR ''.'' # rest) = decimal n"
  using decimal_digits[of n] by (simp add: takeWhile_append2 list_all_iff not_isDigit_dot)

lemma dropWhile_decimal: "dropWhile isDigit (decimal n @ CHR ''.'' # rest) = CHR ''.'' # rest"
  using decimal_digits[of n] by (simp add: dropWhile_append2 list_all_iff not_isDigit_dot)

text \<open>A token of the stand-in verifies under its key until its 900 seconds are over.\<close>

lemma idealVerify_idealSign:
  "idealVerify key now' (decimal (now + 900) @ CHR ''.'' # key @ CHR ''.'' # phone) =
     (if now' < now + 900 then Some (Some phone) else None)"
  by (simp add: idealVerify_def Let_def takeWhile_decimal dropWhile_decimal decimal_nonempty
      decimalValue_decimal)

section \<open>C1: the appointment and reminder invariant\<close>

text \<open>
  C1 states that in every state reachable by submit, modify and cancel requests a
  Reminder of an appointment exists exactly when the appointment exists, with the alert
  time one hour before the appointment's current date and time.

  The handlers run on well-formed requests: a booking for phone 555 at 14:00, the same
  phone submitted again for 15:00, then its cancellation. \<open>/submit-booking\<close> calls
  \<open>Reminder.create\<close> on the second request too, so appointment 0 has two reminders;
  \<open>/cancel-appointment\<close> deletes the appointment and, with \<open>deleteOne\<close>, the first of
  them. The database is left with no appointment and a reminder for appointment 0,
  in either revision.
\<close>

theorem resubmit_then_cancel_orphans_reminder:
  "run v node emptyDb
     [Submit (Some ''A'') (Some ''555'') (Some ''cut'') (Some ''14:00'') (Some ''2024-01-10'') None,
      Submit (Some ''A'') (Some ''555'') (Some ''cut'') (Some ''15:00'') (Some ''2024-01-10'') None,
      Cancel ''555'']
     = \<lparr>appointments = [],
        reminders = [\<lparr>appointmentId = 0, alertTime = 1704895200000, status = ''pending''\<rparr>],
        nextId = 1\<rparr>"
  by (simp add: scenario_eval)

section \<open>C2: submitting twice\<close>

text \<open>
  C2 states that two valid submissions for one phone leave exactly one Appointment, with
  the fields of the second, and exactly one Reminder, recomputed and not duplicated.

  The appointment is as stated: one document, the second submission's fields, the
  first one's \<open>_id\<close>. The reminders are two, both of appointment 0: the first
  submission's (13:00 on the 10th) and the second's (14:00 on the 11th), in either
  revision.
\<close>

theorem resubmit_duplicates_reminder:
  "run v node emptyDb
     [Submit (Some ''A'') (Some ''555'') (Some ''cut'') (Some ''14:00'') (Some ''2024-01-10'') None,
      Submit (Some ''B'') (Some ''555'') (Some ''shave'') (Some ''15:00'') (Some ''2024-01-11'') (Some ''late'')]
     = \<lparr>appointments =
          [\<lparr>a_id = 0, a_name = Some ''B'', a_phone = ''555'', a_service = Some ''shave'',
            a_time = Some ''15:00'', a_date = Some ''2024-01-11'', a_notes = Some ''late''\<rparr>],
        reminders =
          [\<lparr>appointmentId = 0, alertTime = 1704891600000, status = ''pending''\<rparr>,
           \<lparr>appointmentId = 0, alertTime = 1704981600000, status = ''pending''\<rparr>],
        nextId = 1\<rparr>"
  by (simp add: scenario_eval)

section \<open>C3: the alert time\<close>

text \<open>
  C3, as amended. For a submit of either revision with all required fields present,
  and for a modify of an existing appointment in \<^verbatim>\<open>server4.js\<close>: when \<open>date\<close>, \<open>T\<close> and
  \<open>time\<close> put together parse to the time value \<open>T\<close> (\<open>T\<close> and one hour before \<open>T\<close> being
  time values a \<open>Date\<close> can hold), the Reminder that the request stores has alert time
  \<open>T - 3600000\<close> ms: the submit appends it for the phone's appointment with status
  pending, the modify writes it into the first reminder of the appointment; when
  they do not parse, the request stores no alert time at all and the reminders are
  as they were. In particular, on a host whose zone is \<open>tz\<close> minutes from UTC, the
  scenario's booking for 2024-01-10 at 14:00 on an empty database stores the alert
  time that the host reads from \<open>2024-01-10T13:00\<close>.
\<close>

theorem alert_time_one_hour_before:
  "(parseDate rt (date @ ''T'' @ time) = Some T
      \<and> \<bar>T\<bar> \<le> 8640000000000000 \<and> \<bar>T - 3600000\<bar> \<le> 8640000000000000 \<longrightarrow>
     (name \<noteq> [] \<and> phone \<noteq> [] \<and> service \<noteq> [] \<and> time \<noteq> [] \<and> date \<noteq> [] \<longrightarrow>
        (\<exists>a. reply (submit_booking v rt s (Some name) (Some phone) (Some service) (Some time) (Some date) nts)
                = Ok200 ''Appointment saved successfully!'' (Some a)
           \<and> findByPhone phone
                (store (submit_booking v rt s (Some name) (Some phone) (Some service) (Some time) (Some date) nts))
                = Some a
           \<and> reminders
                (store (submit_booking v rt s (Some name) (Some phone) (Some service) (Some time) (Some date) nts))
                = reminders s @ [\<lparr>appointmentId = a_id a, alertTime = T - 3600000, status = ''pending''\<rparr>]))
     \<and> (\<forall>a. findByPhone phone s = Some a \<longrightarrow>
           reminders (store (modify_appointment Server4 rt s phone name' service' (Some time) (Some date) nts))
             = updateFirst (\<lambda>r. appointmentId r = a_id a)
                 (\<lambda>r. r\<lparr>alertTime := T - 3600000, status := ''pending''\<rparr>) (reminders s)))
   \<and> (parseDate rt (date @ ''T'' @ time) = None \<longrightarrow>
        reminders
          (store (submit_booking v rt s (Some name) (Some phone) (Some service) (Some time) (Some date) nts))
          = reminders s
        \<and> reminders (store (modify_appointment Server4 rt s phone name' service' (Some time) (Some date) nts))
          = reminders s)
   \<and> (\<bar>tz\<bar> \<le> 840 \<longrightarrow>
        (\<exists>t. isoParse tz ''2024-01-10T13:00'' = Some t
           \<and> reminders
                (store (submit_booking v (host tz strip chk) emptyDb
                   (Some ''A'') (Some ''555'') (Some ''cut'') (Some ''14:00'') (Some ''2024-01-10'') None))
                = [\<lparr>appointmentId = 0, alertTime = t, status = ''pending''\<rparr>]))"
proof (intro conjI impI allI)
  assume h: "parseDate rt (date @ ''T'' @ time) = Some T
      \<and> \<bar>T\<bar> \<le> 8640000000000000 \<and> \<bar>T - 3600000\<bar> \<le> 8640000000000000"
  assume ne: "name \<noteq> [] \<and> phone \<noteq> [] \<and> service \<noteq> [] \<and> time \<noteq> [] \<and> date \<noteq> []"
  have at: "alertTimeOf rt (Some date) (Some time) = Some (T - 3600000)"
    using h by (simp add: alertTimeOf_def template_def timeClip_def)
  obtain a s1 where
    u: "upsertAppointment rt s (Some name) phone (Some service) (Some time) (Some date) nts = (a, s1)"
    by (cases "upsertAppointment rt s (Some name) phone (Some service) (Some time) (Some date) nts")
  from upsert_result[OF u] have f: "findByPhone phone s1 = Some a" and r: "reminders s1 = reminders s"
    by simp_all
  have out: "submit_booking v rt s (Some name) (Some phone) (Some service) (Some time) (Some date) nts
      = \<lparr>reply = Ok200 ''Appointment saved successfully!'' (Some a), passedToNext = None,
         store = createReminder (a_id a) (T - 3600000) s1\<rparr>"
    using ne u at by (simp add: submit_booking_def falsy_def)
  show "\<exists>a. reply (submit_booking v rt s (Some name) (Some phone) (Some service) (Some time) (Some date) nts)
            = Ok200 ''Appointment saved successfully!'' (Some a)
       \<and> findByPhone phone
            (store (submit_booking v rt s (Some name) (Some phone) (Some service) (Some time) (Some date) nts))
            = Some a
       \<and> reminders
            (store (submit_booking v rt s (Some name) (Some phone) (Some service) (Some time) (Some date) nts))
            = reminders s @ [\<lparr>appointmentId = a_id a, alertTime = T - 3600000, status = ''pending''\<rparr>]"
    using f r by (intro exI[of _ a]) (simp add: out createReminder_def findByPhone_def)
next
  fix a
  assume h: "parseDate rt (date @ ''T'' @ time) = Some T
      \<and> \<bar>T\<bar> \<le> 8640000000000000 \<and> \<bar>T - 3600000\<bar> \<le> 8640000000000000"
  assume a: "findByPhone phone s = Some a"
  have at: "alertTimeOf rt (Some date) (Some time) = Some (T - 3600000)"
    using h by (simp add: alertTimeOf_def template_def timeClip_def)
  show "reminders (store (modify_appointment Server4 rt s phone name' service' (Some time) (Some date) nts))
          = updateFirst (\<lambda>r. appointmentId r = a_id a)
              (\<lambda>r. r\<lparr>alertTime := T - 3600000, status := ''pending''\<rparr>) (reminders s)"
    using a at by (simp add: modify_appointment_def updateAppointment_def Let_def)
next
  assume bad: "parseDate rt (date @ ''T'' @ time) = None"
  have at: "alertTimeOf rt (Some date) (Some time) = None"
    using bad by (simp add: alertTimeOf_def template_def)
  obtain a s1 where
    u: "upsertAppointment rt s (Some name) phone (Some service) (Some time) (Some date) nts = (a, s1)"
    by (cases "upsertAppointment rt s (Some name) phone (Some service) (Some time) (Some date) nts")
  from upsert_result[OF u] have r: "reminders s1 = reminders s"
    by simp
  show "reminders
          (store (submit_booking v rt s (Some name) (Some phone) (Some service) (Some time) (Some date) nts))
          = reminders s"
    using u at r by (simp add: submit_booking_def)
  show "reminders (store (modify_appointment Server4 rt s phone name' service' (Some time) (Some date) nts))
          = reminders s"
    using at by (simp add: modify_appointment_def updateAppointment_def Let_def split: option.split)
next
  assume tz: "\<bar>tz\<bar> \<le> 840"
  then have at: "alertTimeOf (host tz strip chk) (Some ''2024-01-10'') (Some ''14:00'')
      = Some (1704891600000 - tz * 60000)"
    by (simp add: alertTimeOf_def template_def timeClip_def host_def isoParse_scenario)
  have "reminders
          (store (submit_booking v (host tz strip chk) emptyDb
             (Some ''A'') (Some ''555'') (Some ''cut'') (Some ''14:00'') (Some ''2024-01-10'') None))
          = [\<lparr>appointmentId = 0, alertTime = 1704891600000 - tz * 60000, status = ''pending''\<rparr>]"
    by (simp add: submit_booking_def falsy_def at upsertAppointment_def findByPhone_def emptyDb_def
        createReminder_def Let_def)
  then show "\<exists>t. isoParse tz ''2024-01-10T13:00'' = Some t
           \<and> reminders
                (store (submit_booking v (host tz strip chk) emptyDb
                   (Some ''A'') (Some ''555'') (Some ''cut'') (Some ''14:00'') (Some ''2024-01-10'') None))
                = [\<lparr>appointmentId = 0, alertTime = t, status = ''pending''\<rparr>]"
    by (simp add: isoParse_scenario)
qed

text \<open>
  The theorem on the database \<open>booked\<close>: at a second booking of the scenario's phone
  for 15:00 on the 11th the submit appends a reminder for 14:00 UTC of the 11th and
  the modify writes that time into the reminder there is; at a booking for "tomorrow"
  at "noon" neither changes the reminders.
\<close>

theorem alert_time_one_hour_before_witness:
  "parseDate node (''2024-01-11'' @ ''T'' @ ''15:00'') = Some 1704985200000
   \<and> findByPhone ''555'' booked = Some (hd (appointments booked))
   \<and> reminders (store (submit_booking Server4 node booked
        (Some ''B'') (Some ''555'') (Some ''shave'') (Some ''15:00'') (Some ''2024-01-11'') None))
       = [\<lparr>appointmentId = 0, alertTime = 1704891600000, status = ''pending''\<rparr>,
          \<lparr>appointmentId = 0, alertTime = 1704981600000, status = ''pending''\<rparr>]
   \<and> reminders (store (modify_appointment Server4 node booked ''555''
        (Some ''B'') (Some ''shave'') (Some ''15:00'') (Some ''2024-01-11'') None))
       = [\<lparr>appointmentId = 0, alertTime = 1704981600000, status = ''pending''\<rparr>]
   \<and> parseDate node (''tomorrow'' @ ''T'' @ ''noon'') = None
   \<and> reminders (store (submit_booking Part000 node booked
        (Some ''B'') (Some ''555'') (Some ''shave'') (Some ''noon'') (Some ''tomorrow'') None))
       = [\<lparr>appointmentId = 0, alertTime = 1704891600000, status = ''pending''\<rparr>]
   \<and> isoParse 0 ''2024-01-10T13:00'' = Some 1704891600000
   \<and> reminders (store (submit_booking Server4 (host 0 True False) emptyDb
        (Some ''A'') (Some ''555'') (Some ''cut'') (Some ''14:00'') (Some ''2024-01-10'') None))
       = [\<lparr>appointmentId = 0, alertTime = 1704891600000, status = ''pending''\<rparr>]"
proof -
  have p: "parseDate node (''2024-01-11'' @ ''T'' @ ''15:00'') = Some 1704985200000"
    by (simp add: node_def host_def iso_eval)
  have q: "parseDate node (''tomorrow'' @ ''T'' @ ''noon'') = None"
    by (simp add: node_def host_def iso_eval)
  have f: "findByPhone ''555'' booked = Some (hd (appointments booked))"
    by (simp add: booked_def findByPhone_def)
  have i: "isoParse 0 ''2024-01-10T13:00'' = Some 1704891600000"
    by (simp add: iso_eval)
  note w = alert_time_one_hour_before
    [where rt = node and date = "''2024-01-11''" and time = "''15:00''" and T = 1704985200000
       and name = "''B''" and phone = "''555''" and service = "''shave''" and s = booked
       and nts = None and name' = "Some ''B''" and service' = "Some ''shave''"
       and tz = 0 and strip = True and chk = False and v = Server4]
  note w' = alert_time_one_hour_before
    [where rt = node and date = "''tomorrow''" and time = "''noon''"
       and name = "''B''" and phone = "''555''" and service = "''shave''" and s = booked
       and nts = None and v = Part000]
  from w p f
  have m: "reminders (store (modify_appointment Server4 node booked ''555''
        (Some ''B'') (Some ''shave'') (Some ''15:00'') (Some ''2024-01-11'') None))
       = updateFirst (\<lambda>r. appointmentId r = a_id (hd (appointments booked)))
           (\<lambda>r. r\<lparr>alertTime := 1704985200000 - 3600000, status := ''pending''\<rparr>) (reminders booked)"
    by simp
  from w p
  obtain a where
    fa: "findByPhone ''555'' (store (submit_booking Server4 node booked
        (Some ''B'') (Some ''555'') (Some ''shave'') (Some ''15:00'') (Some ''2024-01-11'') None)) = Some a"
    and ra: "reminders (store (submit_booking Server4 node booked
        (Some ''B'') (Some ''555'') (Some ''shave'') (Some ''15:00'') (Some ''2024-01-11'') None))
       = reminders booked @ [\<lparr>appointmentId = a_id a, alertTime = 1704985200000 - 3600000, status = ''pending''\<rparr>]"
    by auto
  from fa have "a_id a = 0" by (auto simp: scenario_eval)
  with ra have sb: "reminders (store (submit_booking Server4 node booked
        (Some ''B'') (Some ''555'') (Some ''shave'') (Some ''15:00'') (Some ''2024-01-11'') None))
       = [\<lparr>appointmentId = 0, alertTime = 1704891600000, status = ''pending''\<rparr>,
          \<lparr>appointmentId = 0, alertTime = 1704981600000, status = ''pending''\<rparr>]"
    by (simp add: booked_def)
  from w' q
  have nb: "reminders (store (submit_booking Part000 node booked
        (Some ''B'') (Some ''555'') (Some ''shave'') (Some ''noon'') (Some ''tomorrow'') None))
       = reminders booked"
    by blast
  from w i
  have sc: "reminders (store (submit_booking Server4 (host 0 True False) emptyDb
        (Some ''A'') (Some ''555'') (Some ''cut'') (Some ''14:00'') (Some ''2024-01-10'') None))
       = [\<lparr>appointmentId = 0, alertTime = 1704891600000, status = ''pending''\<rparr>]"
    by simp
  from p q f sb m nb i sc show ?thesis
    by (simp add: booked_def node_def host_def)
qed

text \<open>
  C3 as stated fails twice on the scenario's database. In \<^verbatim>\<open>server4.js\<close> a modify to
  "tomorrow" at "noon" is answered with success, the two strings make no timestamp,
  and the stored reminder keeps 13:00 UTC of the 10th. In the earlier revision, on a
  Mongoose that checks the callback argument, a modify to 15:00 on the 11th is
  answered with success and the stored reminder keeps 13:00 UTC of the 10th, where
  one hour before the new date and time is 14:00 UTC of the 11th.
\<close>

theorem alert_time_not_stored_counterexample:
  "modify_appointment Server4 node booked ''555'' (Some ''A'') (Some ''cut'') (Some ''noon'') (Some ''tomorrow'') None
     = \<lparr>reply = Ok200 ''Appointment updated successfully!''
          (Some \<lparr>a_id = 0, a_name = Some ''A'', a_phone = ''555'', a_service = Some ''cut'',
                  a_time = Some ''noon'', a_date = Some ''tomorrow'', a_notes = None\<rparr>),
        passedToNext = Some MongooseCastError,
        store = \<lparr>appointments =
            [\<lparr>a_id = 0, a_name = Some ''A'', a_phone = ''555'', a_service = Some ''cut'',
              a_time = Some ''noon'', a_date = Some ''tomorrow'', a_notes = None\<rparr>],
          reminders = [\<lparr>appointmentId = 0, alertTime = 1704891600000, status = ''pending''\<rparr>],
          nextId = 1\<rparr>\<rparr>
   \<and> parseDate node (''tomorrow'' @ ''T'' @ ''noon'') = None
   \<and> modify_appointment Part000 (host 0 True True) booked ''555''
        (Some ''A'') (Some ''cut'') (Some ''15:00'') (Some ''2024-01-11'') None
     = \<lparr>reply = Ok200 ''Appointment updated successfully!''
          (Some \<lparr>a_id = 0, a_name = Some ''A'', a_phone = ''555'', a_service = Some ''cut'',
                  a_time = Some ''15:00'', a_date = Some ''2024-01-11'', a_notes = None\<rparr>),
        passedToNext = Some CallbackError,
        store = \<lparr>appointments =
            [\<lparr>a_id = 0, a_name = Some ''A'', a_phone = ''555'', a_service = Some ''cut'',
              a_time = Some ''15:00'', a_date = Some ''2024-01-11'', a_notes = None\<rparr>],
          reminders = [\<lparr>appointmentId = 0, alertTime = 1704891600000, status = ''pending''\<rparr>],
          nextId = 1\<rparr>\<rparr>
   \<and> alertTimeOf (host 0 True True) (Some ''2024-01-11'') (Some ''15:00'') = Some 1704981600000"
  by (simp add: scenario_eval)

text \<open>
  What the earlier revision's modify does to the reminders, for the record: nothing
  where Mongoose checks the callback argument, and otherwise the alert time alone.
\<close>

lemma part000_modify_reminders:
  assumes "findByPhone phone s = Some a"
  shows "reminders (store (modify_appointment Part000 rt s phone name service time date nts))
     = (case alertTimeOf rt date time of
          None \<Rightarrow> reminders s
        | Some t \<Rightarrow>
            if checksCallback rt then reminders s
            else updateFirst (\<lambda>r. appointmentId r = a_id a) (\<lambda>r. r\<lparr>alertTime := t\<rparr>) (reminders s))"
  using assms
  by (simp add: modify_appointment_def updateAppointment_def Let_def split: option.split)

section \<open>C4: modify and the reminder\<close>

text \<open>
  C4, as amended. A modify of an existing appointment always answers with success. In
  \<^verbatim>\<open>server4.js\<close>, when the request's date and time make a valid alert time \<open>t\<close>, the
  first reminder of the appointment gets alert time \<open>t\<close> and status pending and the
  other reminders stay as they are; when they do not (a field absent or malformed),
  no reminder is changed.
\<close>

theorem modify_recomputes_reminder:
  assumes a: "findByPhone phone s = Some a"
  shows
   "(\<exists>a'. reply (modify_appointment Server4 rt s phone name service time date notes)
            = Ok200 ''Appointment updated successfully!'' (Some a'))
    \<and> reminders (store (modify_appointment Server4 rt s phone name service time date notes))
        = (case alertTimeOf rt date time of
             None \<Rightarrow> reminders s
           | Some t \<Rightarrow> updateFirst (\<lambda>r. appointmentId r = a_id a)
                        (\<lambda>r. r\<lparr>alertTime := t, status := ''pending''\<rparr>) (reminders s))
    \<and> (\<forall>t r. alertTimeOf rt date time = Some t
              \<and> find (\<lambda>r. appointmentId r = a_id a) (reminders s) = Some r \<longrightarrow>
          find (\<lambda>r. appointmentId r = a_id a)
            (reminders (store (modify_appointment Server4 rt s phone name service time date notes)))
            = Some (r\<lparr>alertTime := t, status := ''pending''\<rparr>))"
proof -
  have rem: "reminders (store (modify_appointment Server4 rt s phone name service time date notes))
        = (case alertTimeOf rt date time of
             None \<Rightarrow> reminders s
           | Some t \<Rightarrow> updateFirst (\<lambda>r. appointmentId r = a_id a)
                        (\<lambda>r. r\<lparr>alertTime := t, status := ''pending''\<rparr>) (reminders s))"
    using a by (simp add: modify_appointment_def updateAppointment_def Let_def split: option.split)
  have rep: "\<exists>a'. reply (modify_appointment Server4 rt s phone name service time date notes)
            = Ok200 ''Appointment updated successfully!'' (Some a')"
    using a by (simp add: modify_appointment_def updateAppointment_def Let_def split: option.split)
  have fnd: "\<forall>t r. alertTimeOf rt date time = Some t
              \<and> find (\<lambda>r. appointmentId r = a_id a) (reminders s) = Some r \<longrightarrow>
          find (\<lambda>r. appointmentId r = a_id a)
            (reminders (store (modify_appointment Server4 rt s phone name service time date notes)))
            = Some (r\<lparr>alertTime := t, status := ''pending''\<rparr>)"
    by (simp add: rem find_updateFirst)
  from rep rem fnd show ?thesis by blast
qed

text \<open>
  The theorem on the scenario's database after its reminder was marked sent: a modify
  to 15:00 of the same day sets the reminder to 14:00 UTC and back to pending.
\<close>

theorem modify_recomputes_reminder_witness:
  "findByPhone ''555'' (booked\<lparr>reminders := [\<lparr>appointmentId = 0, alertTime = 1704891600000, status = ''sent''\<rparr>]\<rparr>)
     = Some (hd (appointments booked))
   \<and> alertTimeOf node (Some ''2024-01-10'') (Some ''15:00'') = Some 1704895200000
   \<and> reminders (store (modify_appointment Server4 node
        (booked\<lparr>reminders := [\<lparr>appointmentId = 0, alertTime = 1704891600000, status = ''sent''\<rparr>]\<rparr>)
        ''555'' (Some ''A'') (Some ''cut'') (Some ''15:00'') (Some ''2024-01-10'') None))
       = [\<lparr>appointmentId = 0, alertTime = 1704895200000, status = ''pending''\<rparr>]"
proof -
  have f: "findByPhone ''555'' (booked\<lparr>reminders := [\<lparr>appointmentId = 0, alertTime = 1704891600000, status = ''sent''\<rparr>]\<rparr>)
     = Some (hd (appointments booked))"
    by (simp add: booked_def findByPhone_def)
  have t: "alertTimeOf node (Some ''2024-01-10'') (Some ''15:00'') = Some 1704895200000"
    by (simp add: scenario_eval)
  from modify_recomputes_reminder[OF f, of node "Some ''A''" "Some ''cut''" "Some ''15:00''" "Some ''2024-01-10''" None]
  have "reminders (store (modify_appointment Server4 node
        (booked\<lparr>reminders := [\<lparr>appointmentId = 0, alertTime = 1704891600000, status = ''sent''\<rparr>]\<rparr>)
        ''555'' (Some ''A'') (Some ''cut'') (Some ''15:00'') (Some ''2024-01-10'') None))
      = (case alertTimeOf node (Some ''2024-01-10'') (Some ''15:00'') of
             None \<Rightarrow> reminders (booked\<lparr>reminders := [\<lparr>appointmentId = 0, alertTime = 1704891600000, status = ''sent''\<rparr>]\<rparr>)
           | Some t \<Rightarrow> updateFirst (\<lambda>r. appointmentId r = a_id (hd (appointments booked)))
                        (\<lambda>r. r\<lparr>alertTime := t, status := ''pending''\<rparr>)
                        (reminders (booked\<lparr>reminders := [\<lparr>appointmentId = 0, alertTime = 1704891600000, status = ''sent''\<rparr>]\<rparr>)))"
    by blast
  with f t show ?thesis by (simp add: booked_def)
qed

text \<open>
  C4 as stated fails on the spec's own scenario. The request \<open>{phone:"555", time:"15:00"}\<close>
  has no date, the template literal reads \<open>undefinedT15:00\<close>, the \<open>Date\<close> is invalid and
  Mongoose refuses it: the caller is told the appointment was updated (it now reads
  15:00 on 2024-01-10, whose alert time would be 14:00 UTC), and the reminder still
  says 13:00.
\<close>

theorem modify_time_only_counterexample:
  "modify_appointment Server4 node booked ''555'' None None (Some ''15:00'') None None
     = \<lparr>reply = Ok200 ''Appointment updated successfully!''
          (Some \<lparr>a_id = 0, a_name = Some ''A'', a_phone = ''555'', a_service = Some ''cut'',
                  a_time = Some ''15:00'', a_date = Some ''2024-01-10'', a_notes = None\<rparr>),
        passedToNext = Some MongooseCastError,
        store = \<lparr>appointments =
            [\<lparr>a_id = 0, a_name = Some ''A'', a_phone = ''555'', a_service = Some ''cut'',
              a_time = Some ''15:00'', a_date = Some ''2024-01-10'', a_notes = None\<rparr>],
          reminders = [\<lparr>appointmentId = 0, alertTime = 1704891600000, status = ''pending''\<rparr>],
          nextId = 1\<rparr>\<rparr>
   \<and> alertTimeOf node (Some ''2024-01-10'') (Some ''15:00'') = Some 1704895200000"
  by (simp add: scenario_eval)

text \<open>
  The earlier revision passes \<open>{ status: 'pending' }\<close> as the options of
  \<open>findOneAndUpdate\<close>: whatever the Mongoose, its modify leaves the status of every
  reminder as it was.
\<close>

lemma status_updateFirst_alertTime:
  "map status (updateFirst P (\<lambda>r. r\<lparr>alertTime := t\<rparr>) xs) = map status xs"
  by (induction xs) auto

lemma part000_modify_keeps_status:
  "map status (reminders (store (modify_appointment Part000 rt s phone name service time date notes)))
     = map status (reminders s)"
  by (simp add: modify_appointment_def updateAppointment_def Let_def status_updateFirst_alertTime
      split: option.split)

section \<open>C5: a malformed date or time\<close>

text \<open>
  C5, as amended. A submit with all required fields present whose date and time do not
  parse is not rejected: the caller gets the success response and the appointment is
  upserted. No Reminder is written, though: the reminder step fails after the
  response (a \<open>RangeError\<close> from \<open>toISOString\<close> in the earlier revision, Mongoose's
  refusal of the Invalid Date in \<^verbatim>\<open>server4.js\<close>) and the error goes to \<open>next\<close>.
\<close>

theorem submit_invalid_date_writes_no_reminder:
  assumes ne: "name \<noteq> []" "phone \<noteq> []" "service \<noteq> []" "time \<noteq> []" "date \<noteq> []"
      and bad: "parseDate rt (date @ ''T'' @ time) = None"
  shows
   "\<exists>a. reply (submit_booking v rt s (Some name) (Some phone) (Some service) (Some time) (Some date) notes)
            = Ok200 ''Appointment saved successfully!'' (Some a)
       \<and> findByPhone phone
            (store (submit_booking v rt s (Some name) (Some phone) (Some service) (Some time) (Some date) notes))
            = Some a
       \<and> reminders
            (store (submit_booking v rt s (Some name) (Some phone) (Some service) (Some time) (Some date) notes))
            = reminders s
       \<and> passedToNext (submit_booking v rt s (Some name) (Some phone) (Some service) (Some time) (Some date) notes)
            = Some (case v of Server4 \<Rightarrow> MongooseCastError | Part000 \<Rightarrow> RangeError)"
proof -
  have at: "alertTimeOf rt (Some date) (Some time) = None"
    using bad by (simp add: alertTimeOf_def template_def)
  obtain a s1 where
    u: "upsertAppointment rt s (Some name) phone (Some service) (Some time) (Some date) notes = (a, s1)"
    by (cases "upsertAppointment rt s (Some name) phone (Some service) (Some time) (Some date) notes")
  from upsert_result[OF u] have f: "findByPhone phone s1 = Some a" and r: "reminders s1 = reminders s"
    by simp_all
  have out: "submit_booking v rt s (Some name) (Some phone) (Some service) (Some time) (Some date) notes
      = \<lparr>reply = Ok200 ''Appointment saved successfully!'' (Some a),
         passedToNext = Some (invalidDateError v), store = s1\<rparr>"
    using ne u at by (simp add: submit_booking_def falsy_def)
  show ?thesis
    using f r by (intro exI[of _ a]) (simp add: out invalidDateError_def)
qed

text \<open>The theorem at a booking for "tomorrow" at "noon" on the scenario's database.\<close>

theorem submit_invalid_date_writes_no_reminder_witness:
  "parseDate node (''tomorrow'' @ ''T'' @ ''noon'') = None
   \<and> reply (submit_booking Server4 node booked (Some ''A'') (Some ''555'') (Some ''cut'') (Some ''noon'') (Some ''tomorrow'') None)
       = Ok200 ''Appointment saved successfully!''
           (Some \<lparr>a_id = 0, a_name = Some ''A'', a_phone = ''555'', a_service = Some ''cut'',
                   a_time = Some ''noon'', a_date = Some ''tomorrow'', a_notes = None\<rparr>)
   \<and> reminders (store (submit_booking Server4 node booked (Some ''A'') (Some ''555'') (Some ''cut'') (Some ''noon'') (Some ''tomorrow'') None))
       = reminders booked
   \<and> passedToNext (submit_booking Server4 node booked (Some ''A'') (Some ''555'') (Some ''cut'') (Some ''noon'') (Some ''tomorrow'') None)
       = Some MongooseCastError"
proof -
  have bad: "parseDate node (''tomorrow'' @ ''T'' @ ''noon'') = None"
    by (simp add: node_def host_def iso_eval)
  from submit_invalid_date_writes_no_reminder
         [of "''A''" "''555''" "''cut''" "''noon''" "''tomorrow''" node Server4 booked None, OF _ _ _ _ _ bad]
  obtain a where
    "reply (submit_booking Server4 node booked (Some ''A'') (Some ''555'') (Some ''cut'') (Some ''noon'') (Some ''tomorrow'') None)
       = Ok200 ''Appointment saved successfully!'' (Some a)"
    "findByPhone ''555''
       (store (submit_booking Server4 node booked (Some ''A'') (Some ''555'') (Some ''cut'') (Some ''noon'') (Some ''tomorrow'') None))
       = Some a"
    "reminders (store (submit_booking Server4 node booked (Some ''A'') (Some ''555'') (Some ''cut'') (Some ''noon'') (Some ''tomorrow'') None))
       = reminders booked"
    "passedToNext (submit_booking Server4 node booked (Some ''A'') (Some ''555'') (Some ''cut'') (Some ''noon'') (Some ''tomorrow'') None)
       = Some MongooseCastError"
    by auto
  with bad show ?thesis by (auto simp: scenario_eval)
qed

text \<open>
  C5 as stated fails: on an empty database the booking for "tomorrow" at "noon" is
  answered with success and stored, and the Reminder collection stays empty in both
  revisions; the invalid timestamp is not stored, the reminder write is what fails.
\<close>

theorem submit_malformed_date_counterexample:
  "submit_booking Server4 node emptyDb (Some ''A'') (Some ''555'') (Some ''cut'') (Some ''noon'') (Some ''tomorrow'') None
     = \<lparr>reply = Ok200 ''Appointment saved successfully!''
          (Some \<lparr>a_id = 0, a_name = Some ''A'', a_phone = ''555'', a_service = Some ''cut'',
                  a_time = Some ''noon'', a_date = Some ''tomorrow'', a_notes = None\<rparr>),
        passedToNext = Some MongooseCastError,
        store = \<lparr>appointments =
            [\<lparr>a_id = 0, a_name = Some ''A'', a_phone = ''555'', a_service = Some ''cut'',
              a_time = Some ''noon'', a_date = Some ''tomorrow'', a_notes = None\<rparr>],
          reminders = [], nextId = 1\<rparr>\<rparr>
   \<and> passedToNext (submit_booking Part000 node emptyDb (Some ''A'') (Some ''555'') (Some ''cut'') (Some ''noon'') (Some ''tomorrow'') None)
       = Some RangeError
   \<and> reminders (store (submit_booking Part000 node emptyDb (Some ''A'') (Some ''555'') (Some ''cut'') (Some ''noon'') (Some ''tomorrow'') None))
       = []"
  by (simp add: scenario_eval)

section \<open>C6: a missing required field\<close>

text \<open>
  C6. A submit request that lacks any of name, phone, service, time or date fails with
  ValidationError (status 400) before any write: the database after the request is
  the database before it, in both revisions.
\<close>

theorem submit_missing_field_rejected:
  assumes "name = None \<or> phone = None \<or> service = None \<or> time = None \<or> date = None"
  shows "submit_booking v rt s name phone service time date notes =
           \<lparr>reply = ValidationError ''All fields are required!'', passedToNext = None, store = s\<rparr>"
  using assms by (auto simp: submit_booking_def falsy_def)

text \<open>The theorem at the scenario's request without its date, on the scenario's database.\<close>

theorem submit_missing_field_rejected_witness:
  "submit_booking Server4 node booked (Some ''A'') (Some ''555'') (Some ''cut'') (Some ''14:00'') None None =
     \<lparr>reply = ValidationError ''All fields are required!'', passedToNext = None, store = booked\<rparr>"
  by (rule submit_missing_field_rejected) simp

section \<open>C7: unknown phones, and cancel\<close>

text \<open>
  For a phone without an appointment, modify (either revision, whatever the other
  fields) answers NotFound and leaves the database as it was, and so does cancel.
\<close>

lemma unknown_phone_not_found:
  assumes "findByPhone phone s = None"
  shows "modify_appointment v rt s phone name service time date nts =
           \<lparr>reply = NotFound ''Appointment not found!'', passedToNext = None, store = s\<rparr>"
    and "cancel_appointment s phone =
           \<lparr>reply = NotFound ''Appointment not found!'', passedToNext = None, store = s\<rparr>"
  using assms
  by (simp_all add: modify_appointment_def updateAppointment_def cancel_appointment_def)

text \<open>
  For a phone with an appointment, in a database that respects the unique index on
  \<open>phone\<close>, cancel answers with success and leaves no appointment of the phone; of the
  reminders it deletes the first one of the appointment and no other.
\<close>

lemma cancel_known_phone:
  assumes a: "findByPhone phone s = Some a" and u: "uniquePhones s"
  shows "cancel_appointment s phone =
           \<lparr>reply = Ok200 ''Appointment canceled successfully!'' None, passedToNext = None,
            store = s\<lparr>appointments := filter (\<lambda>x. a_phone x \<noteq> phone) (appointments s),
                      reminders := deleteFirst (\<lambda>r. appointmentId r = a_id a) (reminders s)\<rparr>\<rparr>"
    and "findByPhone phone (store (cancel_appointment s phone)) = None"
    and "length (filter (\<lambda>r. appointmentId r = a_id a) (reminders (store (cancel_appointment s phone))))
           = length (filter (\<lambda>r. appointmentId r = a_id a) (reminders s)) - 1"
proof -
  show st: "cancel_appointment s phone =
           \<lparr>reply = Ok200 ''Appointment canceled successfully!'' None, passedToNext = None,
            store = s\<lparr>appointments := filter (\<lambda>x. a_phone x \<noteq> phone) (appointments s),
                      reminders := deleteFirst (\<lambda>r. appointmentId r = a_id a) (reminders s)\<rparr>\<rparr>"
    using a u by (simp add: cancel_appointment_def uniquePhones_def deleteFirst_distinct_key)
  show "findByPhone phone (store (cancel_appointment s phone)) = None"
    by (simp add: st findByPhone_def find_filter_neq)
  show "length (filter (\<lambda>r. appointmentId r = a_id a) (reminders (store (cancel_appointment s phone))))
           = length (filter (\<lambda>r. appointmentId r = a_id a) (reminders s)) - 1"
    by (simp add: st length_filter_deleteFirst)
qed

text \<open>
  C7 states that modify and cancel of a phone without an appointment answer NotFound
  and change nothing, and that cancel of a phone with an appointment deletes both its
  Appointment and its Reminder.

  The first half is \<open>unknown_phone_not_found\<close>. The second half fails where a phone
  was submitted twice: each submit created a Reminder, \<open>deleteOne\<close> removes one, and
  after the cancel, answered with success, the database of either revision holds no
  appointment and still the second Reminder of the cancelled one.
\<close>

theorem cancel_after_resubmit_leaves_reminder:
  "cancel_appointment
     (run v node emptyDb
        [Submit (Some ''A'') (Some ''555'') (Some ''cut'') (Some ''14:00'') (Some ''2024-01-10'') None,
         Submit (Some ''A'') (Some ''555'') (Some ''cut'') (Some ''14:00'') (Some ''2024-01-11'') None])
     ''555''
     = \<lparr>reply = Ok200 ''Appointment canceled successfully!'' None, passedToNext = None,
        store = \<lparr>appointments = [],
          reminders = [\<lparr>appointmentId = 0, alertTime = 1704978000000, status = ''pending''\<rparr>],
          nextId = 1\<rparr>\<rparr>"
  by (simp add: scenario_eval)

section \<open>C8: tokens\<close>

text \<open>
  C8, as amended. A missing or empty token fails with status 400 (ValidationError), not
  with InvalidToken, in both variants; redeeming changes nothing in either.

  Map variant (\<^verbatim>\<open>server4.js\<close>): a token issued for a phone and a name (both non-empty;
  the first random draw inside the alphabet, so that the token is not empty) redeems,
  on the store the issue left, to exactly that phone and name; the store after a
  redeem is the store before it, so a second redeem gives the same answer. A non-empty
  token that is none of the names every object inherits fails with InvalidToken
  exactly when the store has no entry for it, and otherwise redeems to its entry.

  Signed variant (the earlier revision): issuing for a non-empty phone answers with
  the token \<open>jwt.sign\<close> made; a non-empty token fails with InvalidToken exactly when
  \<open>jwt.verify\<close> throws, and otherwise redeems to the phone of the verified payload.
  There is no store, so a redeem consumes nothing. With the library that signs for 15
  minutes, a token issued for phone P at time \<open>now\<close> redeems to exactly \<open>{phone: P}\<close> at
  every time before \<open>now + 900\<close> seconds, the first time and every later time, and
  fails with InvalidToken from then on.
\<close>

theorem token_round_trip:
  assumes p: "phone \<noteq> []" and n: "name \<noteq> []" and d: "draw 0 < length chars"
  shows
   "generate_token draw ts (Some phone) (Some name) =
      (TokenJson (generateSimpleToken draw),
       ts(generateSimpleToken draw \<mapsto> \<lparr>id_phone = phone, id_name = name\<rparr>))
    \<and> validate_token (snd (generate_token draw ts (Some phone) (Some name)))
         (Some (generateSimpleToken draw)) =
      (IdentityJson \<lparr>id_phone = phone, id_name = name\<rparr>,
       snd (generate_token draw ts (Some phone) (Some name)))
    \<and> snd (validate_token ts' token) = ts'
    \<and> validate_token (snd (validate_token ts' token)) token = validate_token ts' token
    \<and> validate_token ts' None = (TokenFailure 400 ''Token is required'', ts')
    \<and> validate_token ts' (Some []) = (TokenFailure 400 ''Token is required'', ts')
    \<and> (t \<noteq> [] \<and> t \<notin> set objectPrototypeNames \<longrightarrow>
         (fst (validate_token ts' (Some t)) = InvalidToken ''Invalid or expired token'') = (ts' t = None)
         \<and> (\<forall>i. fst (validate_token ts' (Some t)) = IdentityJson i \<longleftrightarrow> ts' t = Some i))
    \<and> validate_token_signed verify None = TokenFailure 400 ''Token is required''
    \<and> validate_token_signed verify (Some []) = TokenFailure 400 ''Token is required''
    \<and> (\<forall>tok. sign phone = Some tok \<longrightarrow> generate_token_signed sign (Some phone) = TokenJson tok)
    \<and> (t \<noteq> [] \<longrightarrow>
         (validate_token_signed verify (Some t) = InvalidToken ''Invalid or expired token'')
           = (verify t = None)
         \<and> (\<forall>ph. validate_token_signed verify (Some t) = PhoneJson ph \<longleftrightarrow> verify t = Some ph))
    \<and> (\<exists>tok. generate_token_signed (idealSign key now) (Some phone) = TokenJson tok
          \<and> (\<forall>now'. now' < now + 900 \<longrightarrow>
                validate_token_signed (idealVerify key now') (Some tok) = PhoneJson (Some phone))
          \<and> (\<forall>now'. now + 900 \<le> now' \<longrightarrow>
                validate_token_signed (idealVerify key now') (Some tok)
                  = InvalidToken ''Invalid or expired token''))"
proof -
  let ?tok = "generateSimpleToken draw"
  have ne: "?tok \<noteq> []" using d by (rule generateSimpleToken_nonempty)
  have g: "generate_token draw ts (Some phone) (Some name) =
      (TokenJson ?tok, ts(?tok \<mapsto> \<lparr>id_phone = phone, id_name = name\<rparr>))"
    using p n by (simp add: generate_token_def falsy_def Let_def)
  have v: "validate_token (snd (generate_token draw ts (Some phone) (Some name))) (Some ?tok) =
      (IdentityJson \<lparr>id_phone = phone, id_name = name\<rparr>,
       snd (generate_token draw ts (Some phone) (Some name)))"
    using ne by (simp add: g validate_token_def)
  have k: "snd (validate_token ts' token) = ts'"
    by (simp add: validate_token_def split: option.split)
  have k2: "validate_token (snd (validate_token ts' token)) token = validate_token ts' token"
    by (simp add: k)
  have e1: "validate_token ts' None = (TokenFailure 400 ''Token is required'', ts')"
    by (simp add: validate_token_def)
  have e2: "validate_token ts' (Some []) = (TokenFailure 400 ''Token is required'', ts')"
    by (simp add: validate_token_def)
  have u: "t \<noteq> [] \<and> t \<notin> set objectPrototypeNames \<longrightarrow>
         (fst (validate_token ts' (Some t)) = InvalidToken ''Invalid or expired token'') = (ts' t = None)
         \<and> (\<forall>i. fst (validate_token ts' (Some t)) = IdentityJson i \<longleftrightarrow> ts' t = Some i)"
    by (auto simp: validate_token_def split: option.split)
  have s1: "validate_token_signed verify None = TokenFailure 400 ''Token is required''"
    by (simp add: validate_token_signed_def)
  have s2: "validate_token_signed verify (Some []) = TokenFailure 400 ''Token is required''"
    by (simp add: validate_token_signed_def)
  have s3: "\<forall>tok. sign phone = Some tok \<longrightarrow> generate_token_signed sign (Some phone) = TokenJson tok"
    using p by (simp add: generate_token_signed_def)
  have sg: "t \<noteq> [] \<longrightarrow>
         (validate_token_signed verify (Some t) = InvalidToken ''Invalid or expired token'')
           = (verify t = None)
         \<and> (\<forall>ph. validate_token_signed verify (Some t) = PhoneJson ph \<longleftrightarrow> verify t = Some ph)"
    by (auto simp: validate_token_signed_def split: option.split)
  let ?jwt = "decimal (now + 900) @ ''.'' @ key @ ''.'' @ phone"
  have j0: "?jwt \<noteq> []" by (simp add: decimal_nonempty)
  have j1: "generate_token_signed (idealSign key now) (Some phone) = TokenJson ?jwt"
    using p by (simp add: generate_token_signed_def idealSign_def)
  have j2: "\<forall>now'. now' < now + 900 \<longrightarrow>
      validate_token_signed (idealVerify key now') (Some ?jwt) = PhoneJson (Some phone)"
    using j0 by (simp add: validate_token_signed_def idealVerify_idealSign)
  have j3: "\<forall>now'. now + 900 \<le> now' \<longrightarrow>
      validate_token_signed (idealVerify key now') (Some ?jwt) = InvalidToken ''Invalid or expired token''"
    using j0 by (simp add: validate_token_signed_def idealVerify_idealSign)
  from j1 j2 j3
  have ideal: "\<exists>tok. generate_token_signed (idealSign key now) (Some phone) = TokenJson tok
          \<and> (\<forall>now'. now' < now + 900 \<longrightarrow>
                validate_token_signed (idealVerify key now') (Some tok) = PhoneJson (Some phone))
          \<and> (\<forall>now'. now + 900 \<le> now' \<longrightarrow>
                validate_token_signed (idealVerify key now') (Some tok)
                  = InvalidToken ''Invalid or expired token'')"
    by blast
  from g v k k2 e1 e2 u s1 s2 s3 sg ideal show ?thesis by blast
qed

text \<open>
  The theorem with the draws 0, 1, ..., 7, which spell \<open>ABCDEFGH\<close>, for phone 555 and
  name A on an empty store; \<open>ABCDEFGX\<close> was never issued. In the signed variant the
  token is issued at second 1000 under the key \<open>your_secret_key\<close>: it redeems to
  phone 555 at seconds 1100 and 1800, and fails at second 1900, under another key,
  and when it is \<open>ABCDEFGX\<close>.
\<close>

theorem token_round_trip_witness:
  "generate_token (\<lambda>i. i) Map.empty (Some ''555'') (Some ''A'') =
      (TokenJson ''ABCDEFGH'', [''ABCDEFGH'' \<mapsto> \<lparr>id_phone = ''555'', id_name = ''A''\<rparr>])
   \<and> validate_token [''ABCDEFGH'' \<mapsto> \<lparr>id_phone = ''555'', id_name = ''A''\<rparr>] (Some ''ABCDEFGH'') =
      (IdentityJson \<lparr>id_phone = ''555'', id_name = ''A''\<rparr>,
       [''ABCDEFGH'' \<mapsto> \<lparr>id_phone = ''555'', id_name = ''A''\<rparr>])
   \<and> fst (validate_token [''ABCDEFGH'' \<mapsto> \<lparr>id_phone = ''555'', id_name = ''A''\<rparr>] (Some ''ABCDEFGX'')) =
      InvalidToken ''Invalid or expired token''
   \<and> generate_token_signed (idealSign ''your_secret_key'' 1000) (Some ''555'')
       = TokenJson ''1900.your_secret_key.555''
   \<and> validate_token_signed (idealVerify ''your_secret_key'' 1100) (Some ''1900.your_secret_key.555'')
       = PhoneJson (Some ''555'')
   \<and> validate_token_signed (idealVerify ''your_secret_key'' 1800) (Some ''1900.your_secret_key.555'')
       = PhoneJson (Some ''555'')
   \<and> validate_token_signed (idealVerify ''your_secret_key'' 1900) (Some ''1900.your_secret_key.555'')
       = InvalidToken ''Invalid or expired token''
   \<and> validate_token_signed (idealVerify ''another_key'' 1100) (Some ''1900.your_secret_key.555'')
       = InvalidToken ''Invalid or expired token''
   \<and> validate_token_signed (idealVerify ''your_secret_key'' 1100) (Some ''ABCDEFGX'')
       = InvalidToken ''Invalid or expired token''"
proof -
  have tok: "generateSimpleToken (\<lambda>i. i) = ''ABCDEFGH''"
    by (simp add: generateSimpleToken_def chars_def charAt_def)
  have d: "(0::nat) < length chars" by (simp add: chars_def)
  have jwt: "idealSign ''your_secret_key'' 1000 ''555'' = Some ''1900.your_secret_key.555''"
    by (simp add: idealSign_def digitChar_def decimal.simps)
  have other: "idealVerify ''another_key'' 1100 ''1900.your_secret_key.555'' = None"
    by (simp add: idealVerify_def isDigit_def decimalValue_def)
  have garbage: "idealVerify ''your_secret_key'' 1100 ''ABCDEFGX'' = None"
    by (simp add: idealVerify_def isDigit_def decimalValue_def)
  note w = token_round_trip[where phone = "''555''" and name = "''A''" and draw = "\<lambda>i. i"
      and ts = Map.empty and token = None
      and ts' = "[''ABCDEFGH'' \<mapsto> \<lparr>id_phone = ''555'', id_name = ''A''\<rparr>]"
      and sign = "idealSign ''your_secret_key'' 1000" and key = "''your_secret_key''" and now = 1000]
  from w[where t = "''ABCDEFGX''" and verify = "idealVerify ''your_secret_key'' 1100"] d tok garbage
  have a: "generate_token (\<lambda>i. i) Map.empty (Some ''555'') (Some ''A'') =
        (TokenJson ''ABCDEFGH'', [''ABCDEFGH'' \<mapsto> \<lparr>id_phone = ''555'', id_name = ''A''\<rparr>])
      \<and> validate_token [''ABCDEFGH'' \<mapsto> \<lparr>id_phone = ''555'', id_name = ''A''\<rparr>] (Some ''ABCDEFGH'') =
        (IdentityJson \<lparr>id_phone = ''555'', id_name = ''A''\<rparr>,
         [''ABCDEFGH'' \<mapsto> \<lparr>id_phone = ''555'', id_name = ''A''\<rparr>])
      \<and> fst (validate_token [''ABCDEFGH'' \<mapsto> \<lparr>id_phone = ''555'', id_name = ''A''\<rparr>] (Some ''ABCDEFGX'')) =
        InvalidToken ''Invalid or expired token''
      \<and> validate_token_signed (idealVerify ''your_secret_key'' 1100) (Some ''ABCDEFGX'')
        = InvalidToken ''Invalid or expired token''"
    by (auto simp: objectPrototypeNames_def)
  from w[where t = "''1900.your_secret_key.555''" and verify = "idealVerify ''another_key'' 1100"] d other
  have b: "validate_token_signed (idealVerify ''another_key'' 1100) (Some ''1900.your_secret_key.555'')
        = InvalidToken ''Invalid or expired token''"
    by simp
  from w[where t = "''ABCDEFGX''" and verify = "idealVerify ''your_secret_key'' 1100"] d jwt
  obtain tk where
    c1: "generate_token_signed (idealSign ''your_secret_key'' 1000) (Some ''555'') = TokenJson tk"
    and c2: "\<forall>now'. now' < 1000 + 900 \<longrightarrow>
        validate_token_signed (idealVerify ''your_secret_key'' now') (Some tk) = PhoneJson (Some ''555'')"
    and c3: "\<forall>now'. 1000 + 900 \<le> now' \<longrightarrow>
        validate_token_signed (idealVerify ''your_secret_key'' now') (Some tk)
          = InvalidToken ''Invalid or expired token''"
    and c0: "generate_token_signed (idealSign ''your_secret_key'' 1000) (Some ''555'')
          = TokenJson ''1900.your_secret_key.555''"
    by auto
  from c0 c1 have tk: "tk = ''1900.your_secret_key.555''" by simp
  from c2[rule_format, of 1100] c2[rule_format, of 1800] c3[rule_format, of 1900]
  have c: "validate_token_signed (idealVerify ''your_secret_key'' 1100) (Some tk) = PhoneJson (Some ''555'')
      \<and> validate_token_signed (idealVerify ''your_secret_key'' 1800) (Some tk) = PhoneJson (Some ''555'')
      \<and> validate_token_signed (idealVerify ''your_secret_key'' 1900) (Some tk)
          = InvalidToken ''Invalid or expired token''"
    by simp
  from a b c c0 tk show ?thesis by simp
qed

text \<open>
  C8 as stated fails: the empty token was never issued, and redeeming it fails with
  status 400, not with InvalidToken (401); and \<open>constructor\<close> was never issued, and
  redeeming it does not fail, since the store object inherits a property of that name.
\<close>

theorem validate_empty_token_counterexample:
  "validate_token Map.empty (Some []) = (TokenFailure 400 ''Token is required'', Map.empty)
   \<and> validate_token Map.empty (Some ''constructor'') = (InheritedJson, Map.empty)"
  by (simp add: validate_token_def objectPrototypeNames_def)

section \<open>C9: modify checks no field\<close>

text \<open>
  C9. A modify request whose phone has an appointment is answered with success and
  the updated appointment, in both revisions, whatever the other fields are, absent
  ones included: there is no ValidationError on this path.
\<close>

theorem modify_reports_success:
  assumes "findByPhone phone s = Some a"
  shows "reply (modify_appointment v rt s phone name service time date notes) =
           Ok200 ''Appointment updated successfully!''
             (Some (a\<lparr>a_name := setField rt name (a_name a),
                       a_service := setField rt service (a_service a),
                       a_time := setField rt time (a_time a),
                       a_date := setField rt date (a_date a),
                       a_notes := setField rt notes (a_notes a)\<rparr>))"
  using assms
  by (simp add: modify_appointment_def updateAppointment_def Let_def
      split: option.split revision.split)

text \<open>The theorem at a request that carries the phone and nothing else.\<close>

theorem modify_reports_success_witness:
  "findByPhone ''555'' booked = Some (hd (appointments booked))
   \<and> reply (modify_appointment Server4 node booked ''555'' None None None None None) =
       Ok200 ''Appointment updated successfully!'' (Some (hd (appointments booked)))
   \<and> reply (modify_appointment Part000 node booked ''555'' None None None None None) =
       Ok200 ''Appointment updated successfully!'' (Some (hd (appointments booked)))"
proof -
  have f: "findByPhone ''555'' booked = Some (hd (appointments booked))"
    by (simp add: booked_def findByPhone_def)
  from modify_reports_success[OF f, of Server4 node None None None None None]
       modify_reports_success[OF f, of Part000 node None None None None None] f
  show ?thesis by (simp add: setField_def node_def host_def)
qed

section \<open>C10: an empty string is a missing field\<close>

text \<open>
  C10. A submit request in which name, phone, service, time or date is the empty
  string fails with ValidationError (status 400) and writes nothing: the check is
  \<open>!field\<close>, and the empty string is falsy. Both revisions.
\<close>

theorem submit_empty_string_rejected:
  assumes "name = Some [] \<or> phone = Some [] \<or> service = Some [] \<or> time = Some [] \<or> date = Some []"
  shows "submit_booking v rt s name phone service time date notes =
           \<lparr>reply = ValidationError ''All fields are required!'', passedToNext = None, store = s\<rparr>"
  using assms by (auto simp: submit_booking_def falsy_def)

text \<open>The theorem at the scenario's request with an empty name.\<close>

theorem submit_empty_string_rejected_witness:
  "submit_booking Part000 node booked (Some []) (Some ''555'') (Some ''cut'') (Some ''14:00'') (Some ''2024-01-10'') None =
     \<lparr>reply = ValidationError ''All fields are required!'', passedToNext = None, store = booked\<rparr>"
  by (rule submit_empty_string_rejected) simp

end
